theory Spec2Isabelle
  imports Complex_Main "HOL-Library.Word"
begin

unbundle bit_operations_syntax

section \<open>Python values, exceptions and tables\<close>

text \<open>
  An exception is its class together with the text that \<^verbatim>\<open>str(e)\<close> gives. A function
  that can raise returns \<open>exn + 'a\<close>, with \<open>Inl\<close> for the exception.
\<close>

datatype exn_kind =
  AttributeError | ValueError | TypeError | ZeroDivisionError | KeyError
  | FileNotFoundError | NameError | InvalidToken | IndexError

datatype exn = Raise exn_kind string

fun str_exn :: "exn \<Rightarrow> string" where
  "str_exn (Raise k msg) = msg"

text \<open>\<^verbatim>\<open>repr\<close> of a string without quotes or escapes of its own.\<close>

definition repr_str :: "string \<Rightarrow> string" where
  "repr_str s = [CHR 0x27] @ s @ [CHR 0x27]"

definition bind :: "exn + 'a \<Rightarrow> ('a \<Rightarrow> exn + 'b) \<Rightarrow> exn + 'b" where
  "bind m f = (case m of Inl e \<Rightarrow> Inl e | Inr x \<Rightarrow> f x)"

text \<open>
  The values of a \<^verbatim>\<open>Dict[str, Any]\<close> that came from JSON. A dictionary is an
  association list in insertion order; \<open>map_of\<close> is its lookup.
\<close>

datatype pyval =
  PNone | PBool bool | PInt int | PFloat real | PStr string
  | PList "pyval list" | PDict "(string \<times> pyval) list"

type_synonym pydict = "(string \<times> pyval) list"

fun type_name :: "pyval \<Rightarrow> string" where
  "type_name PNone = ''NoneType''"
| "type_name (PBool _) = ''bool''"
| "type_name (PInt _) = ''int''"
| "type_name (PFloat _) = ''float''"
| "type_name (PStr _) = ''str''"
| "type_name (PList _) = ''list''"
| "type_name (PDict _) = ''dict''"

text \<open>
  Floating-point numbers are modelled as exact reals, with one extra value for NaN.
  Comparisons with NaN are false, arithmetic with NaN gives NaN.
\<close>

datatype pyfloat = Fl real | NaN

fun fadd :: "pyfloat \<Rightarrow> pyfloat \<Rightarrow> pyfloat" where
  "fadd (Fl a) (Fl b) = Fl (a + b)"
| "fadd _ _ = NaN"

fun fsub :: "pyfloat \<Rightarrow> pyfloat \<Rightarrow> pyfloat" where
  "fsub (Fl a) (Fl b) = Fl (a - b)"
| "fsub _ _ = NaN"

fun fmul :: "pyfloat \<Rightarrow> pyfloat \<Rightarrow> pyfloat" where
  "fmul (Fl a) (Fl b) = Fl (a * b)"
| "fmul _ _ = NaN"

fun fless :: "pyfloat \<Rightarrow> pyfloat \<Rightarrow> bool" where
  "fless (Fl a) (Fl b) = (a < b)"
| "fless _ _ = False"

text \<open>
  A pandas DataFrame: the number of rows and the columns in order, each with its name,
  the name of its dtype and one cell per row. \<open>Missing\<close> is NaN/None.
\<close>

datatype cell = Number real | Text string | Missing

record column =
  col_name :: string
  dtype :: string
  cells :: "cell list"

record dataframe =
  nrows :: nat
  columns :: "column list"

definition wf_dataframe :: "dataframe \<Rightarrow> bool" where
  "wf_dataframe df \<longleftrightarrow>
     list_all (\<lambda>c. length (cells c) = nrows df) (columns df)
     \<and> distinct (map col_name (columns df))"

definition column_names :: "dataframe \<Rightarrow> string list" where
  "column_names df = map col_name (columns df)"

text \<open>
  \<^verbatim>\<open>df[col]\<close> selects by label: the columns that carry it. One column is a Series; with a
  label that occurs more than once the result is a DataFrame, which has no \<^verbatim>\<open>dtype\<close>.
\<close>

definition getitem :: "dataframe \<Rightarrow> string \<Rightarrow> column list" where
  "getitem df col = filter (\<lambda>c. col_name c = col) (columns df)"

definition no_dtype :: exn where
  "no_dtype =
     Raise AttributeError
       (repr_str ''DataFrame'' @ '' object has no attribute '' @ repr_str ''dtype'')"

text \<open>\<^verbatim>\<open>df[col].dtype in ['int64', 'float64']\<close> on a Series.\<close>

definition is_numeric :: "column \<Rightarrow> bool" where
  "is_numeric c \<longleftrightarrow> dtype c = ''int64'' \<or> dtype c = ''float64''"

fun num_values :: "cell list \<Rightarrow> real list" where
  "num_values [] = []"
| "num_values (Number r # cs) = r # num_values cs"
| "num_values (_ # cs) = num_values cs"

text \<open>Elementwise comparison of a cell with a bound: false on a missing cell or a NaN bound.\<close>

fun cell_lt :: "cell \<Rightarrow> pyfloat \<Rightarrow> bool" where
  "cell_lt (Number r) (Fl b) = (r < b)"
| "cell_lt _ _ = False"

fun cell_gt :: "cell \<Rightarrow> pyfloat \<Rightarrow> bool" where
  "cell_gt (Number r) (Fl b) = (r > b)"
| "cell_gt _ _ = False"

text \<open>
  \<^verbatim>\<open>Series.quantile(q)\<close>: linear interpolation between the two order statistics around
  position \<open>q * (n - 1)\<close> of the values that are not missing; NaN when there are none.
\<close>

definition quantile :: "cell list \<Rightarrow> real \<Rightarrow> pyfloat" where
  "quantile cs q =
     (let s = sort (num_values cs) in
      if s = [] then NaN
      else let pos = q * real (length s - 1);
               lo = nat \<lfloor>pos\<rfloor>;
               hi = min (lo + 1) (length s - 1)
           in Fl (s ! lo + (s ! hi - s ! lo) * (pos - real lo)))"

definition np_mean :: "real list \<Rightarrow> real" where
  "np_mean xs = sum_list xs / real (length xs)"

text \<open>\<^verbatim>\<open>Series.mean()\<close> and \<^verbatim>\<open>Series.std()\<close> (sample deviation) skip missing cells.\<close>

definition series_mean :: "cell list \<Rightarrow> pyfloat" where
  "series_mean cs =
     (let v = num_values cs in if v = [] then NaN else Fl (sum_list v / real (length v)))"

definition series_std :: "cell list \<Rightarrow> pyfloat" where
  "series_std cs =
     (let v = num_values cs; n = length v in
      if n \<le> 1 then NaN
      else let m = sum_list v / real n
           in Fl (sqrt (sum_list (map (\<lambda>x. (x - m)\<^sup>2) v) / real (n - 1))))"

fun cell_dev_gt :: "cell \<Rightarrow> pyfloat \<Rightarrow> pyfloat \<Rightarrow> bool" where
  "cell_dev_gt (Number r) (Fl m) (Fl b) = (\<bar>r - m\<bar> > b)"
| "cell_dev_gt _ _ _ = False"

section \<open>quality\_checker.py\<close>

record quality_checker =
  quality_thresholds :: "(string \<times> real) list"

definition QualityChecker_init :: quality_checker where
  "QualityChecker_init =
     \<lparr>quality_thresholds =
        [(''completeness'', 0.9), (''consistency'', 0.95), (''accuracy'', 0.95),
         (''timeliness'', 30)]\<rparr>"

text \<open>The clock and the library's timestamp parser. A datetime is a count of microseconds.\<close>

datatype datetime = Naive int | Aware int

record env =
  now :: int
  fromisoformat :: "string \<Rightarrow> exn + datetime"

definition check_completeness :: "dataframe \<Rightarrow> pyfloat" where
  "check_completeness df =
     (let nulls = sum_list (map (\<lambda>c. length (filter (\<lambda>x. x = Missing) (cells c))) (columns df));
          total = nrows df * length (columns df)
      in if total = 0 then NaN else Fl (1 - real nulls / real total))"

text \<open>
  The loop \<^verbatim>\<open>for col in df.columns\<close> of \<^verbatim>\<open>_check_consistency\<close>, with the list of scores
  so far. \<^verbatim>\<open>outliers / len(df)\<close> divides two integers and raises on a table without rows.
\<close>

fun consistency_scores :: "dataframe \<Rightarrow> string list \<Rightarrow> real list \<Rightarrow> exn + real list" where
  "consistency_scores df [] acc = Inr acc"
| "consistency_scores df (col # cols) acc =
     (case getitem df col of
        [] \<Rightarrow> Inl (Raise KeyError (repr_str col))
      | [c] \<Rightarrow>
          if is_numeric c then
            (let Q1 = quantile (cells c) 0.25;
                 Q3 = quantile (cells c) 0.75;
                 IQR = fsub Q3 Q1;
                 outliers = length (filter
                   (\<lambda>x. cell_lt x (fsub Q1 (fmul (Fl 1.5) IQR))
                        \<or> cell_gt x (fadd Q3 (fmul (Fl 1.5) IQR))) (cells c))
             in if nrows df = 0 then Inl (Raise ZeroDivisionError ''division by zero'')
                else consistency_scores df cols (acc @ [1 - real outliers / real (nrows df)]))
          else consistency_scores df cols acc
      | _ \<Rightarrow> Inl no_dtype)"

definition check_consistency :: "dataframe \<Rightarrow> exn + pyfloat" where
  "check_consistency df =
     bind (consistency_scores df (column_names df) [])
       (\<lambda>scores. Inr (Fl (if scores \<noteq> [] then np_mean scores else 1.0)))"

fun accuracy_scores :: "dataframe \<Rightarrow> string list \<Rightarrow> real list \<Rightarrow> exn + real list" where
  "accuracy_scores df [] acc = Inr acc"
| "accuracy_scores df (col # cols) acc =
     (case getitem df col of
        [] \<Rightarrow> Inl (Raise KeyError (repr_str col))
      | [c] \<Rightarrow>
          if is_numeric c then
            (let mean = series_mean (cells c);
                 std = series_std (cells c);
                 outliers = length (filter
                   (\<lambda>x. cell_dev_gt x mean (fmul (Fl 3) std)) (cells c))
             in if nrows df = 0 then Inl (Raise ZeroDivisionError ''division by zero'')
                else accuracy_scores df cols (acc @ [1 - real outliers / real (nrows df)]))
          else accuracy_scores df cols acc
      | _ \<Rightarrow> Inl no_dtype)"

definition check_accuracy :: "dataframe \<Rightarrow> exn + pyfloat" where
  "check_accuracy df =
     bind (accuracy_scores df (column_names df) [])
       (\<lambda>scores. Inr (Fl (if scores \<noteq> [] then np_mean scores else 1.0)))"

text \<open>\<^verbatim>\<open>(datetime.now() - last_updated).days\<close>: whole days, rounded towards minus infinity.\<close>

definition days_between :: "int \<Rightarrow> datetime \<Rightarrow> exn + int" where
  "days_between t d =
     (case d of
        Naive u \<Rightarrow> Inr ((t - u) div 86400000000)
      | Aware u \<Rightarrow> Inl (Raise TypeError
          ''can't subtract offset-naive and offset-aware datetimes''))"

definition check_timeliness :: "quality_checker \<Rightarrow> env \<Rightarrow> pydict \<Rightarrow> exn + pyfloat" where
  "check_timeliness self e metadata =
     (case map_of metadata ''last_updated'' of
        None \<Rightarrow> Inr (Fl 0.5)
      | Some (PStr s) \<Rightarrow>
          bind (fromisoformat e s) (\<lambda>last_updated.
          bind (days_between (now e) last_updated) (\<lambda>days_old.
            (case map_of (quality_thresholds self) ''timeliness'' of
               None \<Rightarrow> Inl (Raise KeyError (repr_str ''timeliness''))
             | Some t \<Rightarrow>
                 if t = 0 then Inl (Raise ZeroDivisionError ''division by zero'')
                 else Inr (Fl (max 0 (1 - real_of_int days_old / t))))))
      | Some _ \<Rightarrow> Inl (Raise TypeError ''fromisoformat: argument must be str''))"

text \<open>
  \<^verbatim>\<open>select_dtypes(include=['int64', 'float64'])\<close> keeps the columns whose scalar type is
  a 64-bit integer or float: the numpy dtypes and the nullable and Arrow-backed ones.
\<close>

definition selected_numeric :: "column \<Rightarrow> bool" where
  "selected_numeric c \<longleftrightarrow>
     dtype c \<in> set [''int64'', ''float64'', ''Int64'', ''Float64'',
                     ''int64[pyarrow]'', ''double[pyarrow]'']"

text \<open>
  Only the loop over the numeric columns contributes. An exception inside gives 0.0: with a
  repeated label \<^verbatim>\<open>df[col]\<close> is a DataFrame, which \<^verbatim>\<open>pd.to_numeric\<close> refuses. With no
  rows, numpy divides 0 by 0 and gives NaN.
\<close>

definition check_format_validity :: "dataframe \<Rightarrow> pyfloat" where
  "check_format_validity df =
     (let numeric_cols = map col_name (filter selected_numeric (columns df));
          format_scores = map (\<lambda>col.
             let invalid_count =
                   length (filter (\<lambda>x. x = Missing) (concat (map cells (getitem df col))))
             in if nrows df = 0 then NaN
                else Fl (1 - real invalid_count / real (nrows df))) numeric_cols
      in if list_ex (\<lambda>col. length (getitem df col) \<noteq> 1) numeric_cols then Fl 0.0
         else if format_scores = [] then Fl 1.0
         else if NaN \<in> set format_scores then NaN
         else Fl (np_mean (map (\<lambda>f. case f of Fl r \<Rightarrow> r | NaN \<Rightarrow> 0) format_scores)))"

text \<open>
  Iterating over the declared schema and indexing it with the iterated element, for each
  shape a JSON value can have.
\<close>

fun schema_entries :: "pyval \<Rightarrow> exn + (pyval \<times> (exn + pyval)) list" where
  "schema_entries (PDict kvs) = Inr (map (\<lambda>(k, v). (PStr k, Inr v)) kvs)"
| "schema_entries (PList xs) =
     Inr (map (\<lambda>x. (x, case x of
        PInt i \<Rightarrow> (if - int (length xs) \<le> i \<and> i < int (length xs)
                   then Inr (xs ! nat (if i < 0 then int (length xs) + i else i))
                   else Inl (Raise IndexError ''list index out of range''))
      | PBool b \<Rightarrow> (if (if b then 1 else 0) < length xs then Inr (xs ! (if b then 1 else 0))
                   else Inl (Raise IndexError ''list index out of range''))
      | _ \<Rightarrow> Inl (Raise TypeError
               (''list indices must be integers or slices, not '' @ type_name x)))) xs)"
| "schema_entries (PStr s) =
     Inr (map (\<lambda>c. (PStr [c], Inl (Raise TypeError ''string indices must be integers''))) s)"
| "schema_entries v =
     Inl (Raise TypeError (repr_str (type_name v) @ '' object is not iterable''))"

fun matching_columns :: "dataframe \<Rightarrow> (pyval \<times> (exn + pyval)) list \<Rightarrow> exn + nat" where
  "matching_columns df [] = Inr 0"
| "matching_columns df ((col, expected) # rest) =
     (case col of
        PStr k \<Rightarrow>
          (case find (\<lambda>c. col_name c = k) (columns df) of
             None \<Rightarrow> matching_columns df rest
           | Some c \<Rightarrow>
               bind expected (\<lambda>t.
               bind (matching_columns df rest) (\<lambda>n.
                 Inr (if t = PStr (dtype c) then Suc n else n))))
      | PList _ \<Rightarrow> Inl (Raise TypeError ''unhashable type: list'')
      | PDict _ \<Rightarrow> Inl (Raise TypeError ''unhashable type: dict'')
      | _ \<Rightarrow> matching_columns df rest)"

definition check_schema_compliance :: "dataframe \<Rightarrow> pydict \<Rightarrow> exn + pyfloat" where
  "check_schema_compliance df metadata =
     (case map_of metadata ''schema'' of
        None \<Rightarrow> Inr (Fl 0.5)
      | Some expected_schema \<Rightarrow>
          bind (schema_entries expected_schema) (\<lambda>entries.
          bind (matching_columns df entries) (\<lambda>n.
            if length entries = 0 then Inl (Raise ZeroDivisionError ''division by zero'')
            else Inr (Fl (real n / real (length entries))))))"

definition advisory :: "string \<Rightarrow> string option" where
  "advisory metric =
     (if metric = ''completeness'' then
        Some ''Consider handling missing values or collecting more complete data''
      else if metric = ''consistency'' then
        Some ''Review and handle outliers in the dataset''
      else if metric = ''accuracy'' then
        Some ''Validate extreme values and consider data cleaning''
      else if metric = ''timeliness'' then
        Some ''Update the dataset with more recent data''
      else if metric = ''format_validity'' then
        Some ''Review data types and format specifications''
      else if metric = ''schema_compliance'' then
        Some ''Ensure data follows the expected schema''
      else None)"

definition threshold :: "quality_checker \<Rightarrow> string \<Rightarrow> real" where
  "threshold self metric =
     (case map_of (quality_thresholds self) metric of None \<Rightarrow> 0.9 | Some t \<Rightarrow> t)"

fun generate_recommendations_loop ::
  "quality_checker \<Rightarrow> (string \<times> pyfloat) list \<Rightarrow> string list \<Rightarrow> string list" where
  "generate_recommendations_loop self [] recommendations = recommendations"
| "generate_recommendations_loop self ((metric, score) # rest) recommendations =
     (if fless score (Fl (threshold self metric)) then
        (case advisory metric of
           Some text \<Rightarrow> generate_recommendations_loop self rest (recommendations @ [text])
         | None \<Rightarrow> generate_recommendations_loop self rest recommendations)
      else generate_recommendations_loop self rest recommendations)"

definition generate_recommendations ::
  "quality_checker \<Rightarrow> (string \<times> pyfloat) list \<Rightarrow> string list" where
  "generate_recommendations self scores = generate_recommendations_loop self scores []"

record quality_report =
  overall_score :: pyfloat
  detailed_scores :: "(string \<times> pyfloat) list"
  recommendations :: "string list"

definition weights :: "(string \<times> real) list" where
  "weights =
     [(''completeness'', 0.3), (''consistency'', 0.2), (''accuracy'', 0.2),
      (''timeliness'', 0.1), (''format_validity'', 0.1), (''schema_compliance'', 0.1)]"

fun weighted_sum :: "(string \<times> pyfloat) list \<Rightarrow> pyfloat \<Rightarrow> exn + pyfloat" where
  "weighted_sum [] acc = Inr acc"
| "weighted_sum ((metric, score) # rest) acc =
     (case map_of weights metric of
        None \<Rightarrow> Inl (Raise KeyError (repr_str metric))
      | Some w \<Rightarrow> weighted_sum rest (fadd acc (fmul score (Fl w))))"

text \<open>The body of the \<^verbatim>\<open>try\<close> block of \<^verbatim>\<open>evaluate_quality\<close> once the table is loaded.\<close>

definition score_dataset ::
  "quality_checker \<Rightarrow> env \<Rightarrow> dataframe \<Rightarrow> pydict \<Rightarrow> exn + quality_report" where
  "score_dataset self e df metadata =
     bind (check_consistency df) (\<lambda>consistency.
     bind (check_accuracy df) (\<lambda>accuracy.
     bind (check_timeliness self e metadata) (\<lambda>timeliness.
     bind (check_schema_compliance df metadata) (\<lambda>schema_compliance.
       let quality_scores =
             [(''completeness'', check_completeness df),
              (''consistency'', consistency),
              (''accuracy'', accuracy),
              (''timeliness'', timeliness),
              (''format_validity'', check_format_validity df),
              (''schema_compliance'', schema_compliance)]
       in bind (weighted_sum quality_scores (Fl 0)) (\<lambda>overall.
            Inr \<lparr>overall_score = overall,
                 detailed_scores = quality_scores,
                 recommendations = generate_recommendations self quality_scores\<rparr>)))))"

text \<open>
  \<^verbatim>\<open>evaluate_quality\<close>, given what the attribute lookup \<^verbatim>\<open>self._load_dataset\<close>
  finds: \<open>None\<close> when the class defines no such method, and then the lookup raises
  AttributeError. Every exception of the body is caught and raised again as one ValueError.
\<close>

definition evaluate_quality_with ::
  "(string \<Rightarrow> exn + dataframe) option \<Rightarrow> quality_checker \<Rightarrow> env \<Rightarrow> string \<Rightarrow> pydict
     \<Rightarrow> exn + quality_report" where
  "evaluate_quality_with load_dataset self e file_path metadata =
     (case bind (case load_dataset of
                   None \<Rightarrow> Inl (Raise AttributeError
                     (repr_str ''QualityChecker'' @ '' object has no attribute ''
                        @ repr_str ''_load_dataset''))
                 | Some load \<Rightarrow> load file_path)
             (\<lambda>df. score_dataset self e df metadata) of
        Inl ex \<Rightarrow> Inl (Raise ValueError (''Error evaluating dataset quality: '' @ str_exn ex))
      | Inr r \<Rightarrow> Inr r)"

text \<open>
  Class \<^verbatim>\<open>QualityChecker\<close> has no base class and defines \<^verbatim>\<open>__init__\<close>,
  \<^verbatim>\<open>evaluate_quality\<close>, the six \<^verbatim>\<open>_check_*\<close> methods and
  \<^verbatim>\<open>_generate_recommendations\<close>; it defines no \<^verbatim>\<open>_load_dataset\<close>.
\<close>

definition evaluate_quality ::
  "quality_checker \<Rightarrow> env \<Rightarrow> string \<Rightarrow> pydict \<Rightarrow> exn + quality_report" where
  "evaluate_quality = evaluate_quality_with None"

text \<open>
  What the body of the loop of \<^verbatim>\<open>_check_consistency\<close> computes for one column: the two
  bounds, and the cells of the rows that the mask selects.
\<close>

definition iqr_bounds :: "cell list \<Rightarrow> pyfloat \<times> pyfloat" where
  "iqr_bounds cs =
     (let Q1 = quantile cs 0.25; Q3 = quantile cs 0.75; IQR = fsub Q3 Q1
      in (fsub Q1 (fmul (Fl 1.5) IQR), fadd Q3 (fmul (Fl 1.5) IQR)))"

definition iqr_outliers :: "cell list \<Rightarrow> cell list" where
  "iqr_outliers cs =
     filter (\<lambda>x. cell_lt x (fst (iqr_bounds cs)) \<or> cell_gt x (snd (iqr_bounds cs))) cs"

text \<open>
  The consistency metric in the words of the specification. A row is outside the bounds
  \<open>[Q1 - 1.5 * IQR, Q3 + 1.5 * IQR]\<close> when its value is a number below the lower or above
  the upper one; the score of a column is \<open>1 - outliers / rowcount\<close>; the metric is the
  unweighted mean of the scores of the numeric columns, and 1.0 when there is none.
\<close>

definition outside :: "real \<Rightarrow> real \<Rightarrow> cell \<Rightarrow> bool" where
  "outside lower upper x = (case x of Number r \<Rightarrow> r < lower \<or> upper < r | _ \<Rightarrow> False)"

definition outlier_rows :: "cell list \<Rightarrow> nat" where
  "outlier_rows cs =
     (case (quantile cs (1 / 4), quantile cs (3 / 4)) of
        (Fl q1, Fl q3) \<Rightarrow>
          length (filter (outside (q1 - 3 / 2 * (q3 - q1)) (q3 + 3 / 2 * (q3 - q1))) cs)
      | _ \<Rightarrow> 0)"

definition consistency_spec :: "dataframe \<Rightarrow> real" where
  "consistency_spec df =
     (let numeric = filter is_numeric (columns df) in
      if numeric = [] then 1
      else sum_list (map (\<lambda>c. 1 - real (outlier_rows (cells c)) / real (nrows df)) numeric)
           / real (length numeric))"

text \<open>
  The recommendations in the words of the specification: going through the metrics in the
  order of the scores, the advisory of each metric whose score is below its threshold.
\<close>

definition advised :: "quality_checker \<Rightarrow> string \<times> pyfloat \<Rightarrow> string option" where
  "advised self p =
     (if fless (snd p) (Fl (threshold self (fst p))) then advisory (fst p) else None)"

definition recommendations_spec ::
  "quality_checker \<Rightarrow> (string \<times> pyfloat) list \<Rightarrow> string list" where
  "recommendations_spec self scores = List.map_filter (advised self) scores"

definition metric_order :: "string list" where
  "metric_order =
     [''completeness'', ''consistency'', ''accuracy'', ''timeliness'', ''format_validity'',
      ''schema_compliance'']"

section \<open>data\_validator.py\<close>

text \<open>
  \<^verbatim>\<open>str.lower()\<close> on the ASCII letters; the three supported format names are ASCII, and
  no string with other characters lowers to one of them.
\<close>

definition lower_char :: "char \<Rightarrow> char" where
  "lower_char c =
     (case map_of (zip ''ABCDEFGHIJKLMNOPQRSTUVWXYZ'' ''abcdefghijklmnopqrstuvwxyz'') c of
        None \<Rightarrow> c
      | Some l \<Rightarrow> l)"

definition lower :: "string \<Rightarrow> string" where
  "lower s = map lower_char s"

definition no_attribute :: "pyval \<Rightarrow> string \<Rightarrow> exn" where
  "no_attribute v name =
     Raise AttributeError
       (repr_str (type_name v) @ '' object has no attribute '' @ repr_str name)"

text \<open>The pandas readers, which the validator calls on the file path.\<close>

record pandas =
  read_csv :: "string \<Rightarrow> exn + dataframe"
  read_json :: "string \<Rightarrow> exn + dataframe"
  read_parquet :: "string \<Rightarrow> exn + dataframe"

record data_validator =
  supported_formats :: "string list"

definition DataValidator_init :: data_validator where
  "DataValidator_init = \<lparr>supported_formats = [''csv'', ''json'', ''parquet'']\<rparr>"

text \<open>\<^verbatim>\<open>df.empty\<close>: an axis of length 0.\<close>

definition df_empty :: "dataframe \<Rightarrow> bool" where
  "df_empty df \<longleftrightarrow> nrows df = 0 \<or> columns df = []"

text \<open>
  \<^verbatim>\<open>col in df.columns\<close>: the key is hashed first, which raises for a list or a
  dictionary; a key that is not a string is no column name.
\<close>

fun in_columns :: "pyval \<Rightarrow> dataframe \<Rightarrow> exn + bool" where
  "in_columns (PStr k) df = Inr (k \<in> set (column_names df))"
| "in_columns (PList xs) df = Inl (Raise TypeError ''unhashable type: list'')"
| "in_columns (PDict kvs) df = Inl (Raise TypeError ''unhashable type: dict'')"
| "in_columns _ df = Inr False"

text \<open>What a \<^verbatim>\<open>for\<close> loop over a value goes through.\<close>

fun py_iter :: "pyval \<Rightarrow> exn + pyval list" where
  "py_iter (PList xs) = Inr xs"
| "py_iter (PDict kvs) = Inr (map (\<lambda>kv. PStr (fst kv)) kvs)"
| "py_iter (PStr s) = Inr (map (\<lambda>c. PStr [c]) s)"
| "py_iter v = Inl (Raise TypeError (repr_str (type_name v) @ '' object is not iterable''))"

text \<open>\<^verbatim>\<open>all(col in df.columns for col in required_columns)\<close> stops at the first false.\<close>

fun all_in_columns :: "dataframe \<Rightarrow> pyval list \<Rightarrow> exn + bool" where
  "all_in_columns df [] = Inr True"
| "all_in_columns df (col # rest) =
     bind (in_columns col df) (\<lambda>b. if b then all_in_columns df rest else Inr False)"

text \<open>
  \<^verbatim>\<open>str(df[col].dtype)\<close>: with a column name that occurs more than once \<^verbatim>\<open>df[col]\<close>
  is a DataFrame, which has no \<^verbatim>\<open>dtype\<close>.
\<close>

definition column_dtype :: "dataframe \<Rightarrow> string \<Rightarrow> exn + string" where
  "column_dtype df k =
     (case filter (\<lambda>c. col_name c = k) (columns df) of
        [] \<Rightarrow> Inl (Raise KeyError (repr_str k))
      | [c] \<Rightarrow> Inr (dtype c)
      | _ \<Rightarrow> Inl (Raise AttributeError
                 (repr_str ''DataFrame'' @ '' object has no attribute '' @ repr_str ''dtype'')))"

text \<open>The loop over \<^verbatim>\<open>column_types.items()\<close>; \<open>Inr False\<close> is its \<^verbatim>\<open>return False\<close>.\<close>

fun check_column_types :: "dataframe \<Rightarrow> (string \<times> pyval) list \<Rightarrow> exn + bool" where
  "check_column_types df [] = Inr True"
| "check_column_types df ((col, dtype') # rest) =
     (if col \<in> set (column_names df) then
        bind (column_dtype df col) (\<lambda>actual.
          if PStr actual \<noteq> dtype' then Inr False else check_column_types df rest)
      else check_column_types df rest)"

definition dict_items :: "pyval \<Rightarrow> exn + (string \<times> pyval) list" where
  "dict_items v = (case v of PDict kvs \<Rightarrow> Inr kvs | _ \<Rightarrow> Inl (no_attribute v ''items''))"

definition dict_get :: "pydict \<Rightarrow> string \<Rightarrow> pyval \<Rightarrow> pyval" where
  "dict_get d k dflt = (case map_of d k of None \<Rightarrow> dflt | Some v \<Rightarrow> v)"

text \<open>The body of the \<^verbatim>\<open>try\<close> block of \<^verbatim>\<open>validate_dataset\<close>.\<close>

definition validate_body ::
  "pandas \<Rightarrow> string \<Rightarrow> string \<Rightarrow> pydict \<Rightarrow> exn + bool" where
  "validate_body pd file_format file_path metadata =
     bind (if file_format = ''csv'' then read_csv pd file_path
           else if file_format = ''json'' then read_json pd file_path
           else if file_format = ''parquet'' then read_parquet pd file_path
           else Inl (Raise NameError
                  ''cannot access local variable 'df' where it is not associated with a value''))
       (\<lambda>df.
          if df_empty df then Inr False
          else
            bind (py_iter (dict_get metadata ''required_columns'' (PList []))) (\<lambda>required_columns.
            bind (all_in_columns df required_columns) (\<lambda>present.
              if \<not> present then Inr False
              else
                bind (dict_items (dict_get metadata ''column_types'' (PDict []))) (\<lambda>column_types.
                  check_column_types df column_types))))"

text \<open>
  The format is read and lowered before the \<^verbatim>\<open>try\<close> block: a format that is not a
  string raises there. Inside the block every exception becomes \<open>False\<close>.
\<close>

definition validate_dataset ::
  "data_validator \<Rightarrow> pandas \<Rightarrow> string \<Rightarrow> pydict \<Rightarrow> exn + bool" where
  "validate_dataset self pd file_path metadata =
     (case dict_get metadata ''format'' (PStr []) of
        PStr s \<Rightarrow>
          (let file_format = lower s in
           if file_format \<notin> set (supported_formats self) then Inr False
           else (case validate_body pd file_format file_path metadata of
                   Inl ex \<Rightarrow> Inr False
                 | Inr b \<Rightarrow> Inr b))
      | v \<Rightarrow> Inl (no_attribute v ''lower''))"

section \<open>Byte strings and the library's cryptographic primitives\<close>

text \<open>
  \<^verbatim>\<open>hashlib\<close>, \<^verbatim>\<open>base64\<close> and \<^verbatim>\<open>cryptography\<close> are libraries outside the repository. What
  their calls compute is written here from the standards that define it: SHA-256, HMAC,
  PBKDF2, base64 with the URL-safe alphabet, AES-128 in CBC mode with PKCS7 padding, and
  the Fernet token format.
\<close>

type_synonym byte = "8 word"
type_synonym bytes = "byte list"

text \<open>
  \<^verbatim>\<open>str.encode()\<close>: a Python string is modelled by the characters of its UTF-8 encoding.
\<close>

definition encode :: "string \<Rightarrow> bytes" where
  "encode s = map (\<lambda>c. of_char c) s"

text \<open>Cutting a byte string into blocks of \<open>n\<close> bytes, the last one possibly shorter.\<close>

function chunks :: "nat \<Rightarrow> 'a list \<Rightarrow> 'a list list" where
  "chunks n xs = (if n = 0 \<or> xs = [] then [] else take n xs # chunks n (drop n xs))"
  by pat_completeness auto
termination
  by (relation "measure (\<lambda>(n, xs). length xs)") auto

declare chunks.simps [simp del]

definition be_bytes :: "nat \<Rightarrow> nat \<Rightarrow> bytes" where
  "be_bytes len v = map (\<lambda>i. of_nat (v div 256 ^ (len - 1 - i))) [0..<len]"

definition be_nat :: "bytes \<Rightarrow> nat" where
  "be_nat bs = foldl (\<lambda>acc b. acc * 256 + unat b) 0 bs"

definition hex_digit :: "nat \<Rightarrow> char" where
  "hex_digit n = ''0123456789abcdef'' ! n"

text \<open>\<^verbatim>\<open>bytes.hex()\<close>: two lowercase hexadecimal digits for every byte.\<close>

definition hex :: "bytes \<Rightarrow> string" where
  "hex bs = concat (map (\<lambda>b. [hex_digit (unat b div 16), hex_digit (unat b mod 16)]) bs)"

subsection \<open>SHA-256 (FIPS 180-4)\<close>

text \<open>
  The sixty-four round constants, in the sixteen rows of four words in which the standard
  prints them (section 4.2.2).
\<close>

definition sha256_K :: "32 word list" where
  "sha256_K = concat
    [[0x428a2f98, 0x71374491, 0xb5c0fbcf, 0xe9b5dba5],
     [0x3956c25b, 0x59f111f1, 0x923f82a4, 0xab1c5ed5],
     [0xd807aa98, 0x12835b01, 0x243185be, 0x550c7dc3],
     [0x72be5d74, 0x80deb1fe, 0x9bdc06a7, 0xc19bf174],
     [0xe49b69c1, 0xefbe4786, 0x0fc19dc6, 0x240ca1cc],
     [0x2de92c6f, 0x4a7484aa, 0x5cb0a9dc, 0x76f988da],
     [0x983e5152, 0xa831c66d, 0xb00327c8, 0xbf597fc7],
     [0xc6e00bf3, 0xd5a79147, 0x06ca6351, 0x14292967],
     [0x27b70a85, 0x2e1b2138, 0x4d2c6dfc, 0x53380d13],
     [0x650a7354, 0x766a0abb, 0x81c2c92e, 0x92722c85],
     [0xa2bfe8a1, 0xa81a664b, 0xc24b8b70, 0xc76c51a3],
     [0xd192e819, 0xd6990624, 0xf40e3585, 0x106aa070],
     [0x19a4c116, 0x1e376c08, 0x2748774c, 0x34b0bcb5],
     [0x391c0cb3, 0x4ed8aa4a, 0x5b9cca4f, 0x682e6ff3],
     [0x748f82ee, 0x78a5636f, 0x84c87814, 0x8cc70208],
     [0x90befffa, 0xa4506ceb, 0xbef9a3f7, 0xc67178f2]]"

definition sha256_H0 :: "32 word list" where
  "sha256_H0 =
    [0x6a09e667, 0xbb67ae85, 0x3c6ef372, 0xa54ff53a, 0x510e527f, 0x9b05688c, 0x1f83d9ab,
     0x5be0cd19]"

definition rotr :: "nat \<Rightarrow> 32 word \<Rightarrow> 32 word" where
  "rotr n x = word_rotr n x"

definition sha_ch :: "32 word \<Rightarrow> 32 word \<Rightarrow> 32 word \<Rightarrow> 32 word" where
  "sha_ch x y z = (x AND y) XOR (NOT x AND z)"

definition sha_maj :: "32 word \<Rightarrow> 32 word \<Rightarrow> 32 word \<Rightarrow> 32 word" where
  "sha_maj x y z = (x AND y) XOR (x AND z) XOR (y AND z)"

definition big_sigma0 :: "32 word \<Rightarrow> 32 word" where
  "big_sigma0 x = rotr 2 x XOR rotr 13 x XOR rotr 22 x"

definition big_sigma1 :: "32 word \<Rightarrow> 32 word" where
  "big_sigma1 x = rotr 6 x XOR rotr 11 x XOR rotr 25 x"

definition small_sigma0 :: "32 word \<Rightarrow> 32 word" where
  "small_sigma0 x = rotr 7 x XOR rotr 18 x XOR drop_bit 3 x"

definition small_sigma1 :: "32 word \<Rightarrow> 32 word" where
  "small_sigma1 x = rotr 17 x XOR rotr 19 x XOR drop_bit 10 x"

definition sha256_pad :: "bytes \<Rightarrow> bytes" where
  "sha256_pad m =
     m @ [0x80] @ replicate ((119 - length m mod 64) mod 64) 0 @ be_bytes 8 (8 * length m)"

definition word_of_bytes :: "bytes \<Rightarrow> 32 word" where
  "word_of_bytes bs = of_nat (be_nat bs)"

definition bytes_of_word :: "32 word \<Rightarrow> bytes" where
  "bytes_of_word w = be_bytes 4 (unat w)"

fun schedule :: "nat \<Rightarrow> 32 word list \<Rightarrow> 32 word list" where
  "schedule 0 w = w"
| "schedule (Suc n) w =
     (let t = length w
      in schedule n (w @ [small_sigma1 (w ! (t - 2)) + w ! (t - 7)
                          + small_sigma0 (w ! (t - 15)) + w ! (t - 16)]))"

fun sha256_round :: "32 word list \<Rightarrow> 32 word \<times> 32 word \<Rightarrow> 32 word list" where
  "sha256_round [a, b, c, d, e, f, g, h] (k, w) =
     (let t1 = h + big_sigma1 e + sha_ch e f g + k + w;
          t2 = big_sigma0 a + sha_maj a b c
      in [t1 + t2, a, b, c, d + t1, e, f, g])"
| "sha256_round st _ = st"

definition sha256_compress :: "32 word list \<Rightarrow> bytes \<Rightarrow> 32 word list" where
  "sha256_compress H block =
     (let W = schedule 48 (map word_of_bytes (chunks 4 block))
      in map2 (+) H (foldl sha256_round H (zip sha256_K W)))"

definition sha256 :: "bytes \<Rightarrow> bytes" where
  "sha256 m = concat (map bytes_of_word (foldl sha256_compress sha256_H0 (chunks 64 (sha256_pad m))))"

subsection \<open>HMAC-SHA256 (RFC 2104) and PBKDF2 (RFC 8018)\<close>

definition hmac_sha256 :: "bytes \<Rightarrow> bytes \<Rightarrow> bytes" where
  "hmac_sha256 key msg =
     (let k0 = (if length key > 64 then sha256 key else key);
          k = k0 @ replicate (64 - length k0) 0
      in sha256 (map (\<lambda>b. b XOR 0x5c) k @ sha256 (map (\<lambda>b. b XOR 0x36) k @ msg)))"

fun pbkdf2_loop :: "bytes \<Rightarrow> nat \<Rightarrow> bytes \<Rightarrow> bytes \<Rightarrow> bytes" where
  "pbkdf2_loop P 0 u t = t"
| "pbkdf2_loop P (Suc n) u t =
     (let u' = hmac_sha256 P u in pbkdf2_loop P n u' (map2 (XOR) t u'))"

definition pbkdf2_block :: "bytes \<Rightarrow> bytes \<Rightarrow> nat \<Rightarrow> nat \<Rightarrow> bytes" where
  "pbkdf2_block P S c i =
     (let u1 = hmac_sha256 P (S @ be_bytes 4 i) in pbkdf2_loop P (c - 1) u1 u1)"

definition pbkdf2_hmac_sha256 :: "bytes \<Rightarrow> bytes \<Rightarrow> nat \<Rightarrow> nat \<Rightarrow> bytes" where
  "pbkdf2_hmac_sha256 P S c dklen =
     take dklen (concat (map (pbkdf2_block P S c) [1..<Suc ((dklen + 31) div 32)]))"

subsection \<open>URL-safe base64 (RFC 4648, as \<^verbatim>\<open>base64.urlsafe_b64encode/decode\<close>)\<close>

definition b64_code :: "nat \<Rightarrow> nat" where
  "b64_code n =
     (if n < 26 then 65 + n
      else if n < 52 then 71 + n
      else if n < 62 then n - 4
      else if n = 62 then 0x2d
      else 0x5f)"

definition b64_char :: "nat \<Rightarrow> byte" where
  "b64_char n = of_nat (b64_code n)"

definition b64_pad :: byte where
  "b64_pad = 0x3d"

fun urlsafe_b64encode :: "bytes \<Rightarrow> bytes" where
  "urlsafe_b64encode (a # b # c # rest) =
     [b64_char (unat a div 4),
      b64_char (unat a mod 4 * 16 + unat b div 16),
      b64_char (unat b mod 16 * 4 + unat c div 64),
      b64_char (unat c mod 64)] @ urlsafe_b64encode rest"
| "urlsafe_b64encode [a, b] =
     [b64_char (unat a div 4),
      b64_char (unat a mod 4 * 16 + unat b div 16),
      b64_char (unat b mod 16 * 4),
      b64_pad]"
| "urlsafe_b64encode [a] =
     [b64_char (unat a div 4), b64_char (unat a mod 4 * 16), b64_pad, b64_pad]"
| "urlsafe_b64encode [] = []"

text \<open>
  The value of a character of the alphabet; \<^verbatim>\<open>urlsafe_b64decode\<close> first maps \<open>-\<close> to
  \<open>+\<close> and \<open>_\<close> to \<open>/\<close>, so both spellings of 62 and 63 are accepted.
\<close>

definition b64_value :: "byte \<Rightarrow> nat option" where
  "b64_value c =
     (let n = unat c in
      if 65 \<le> n \<and> n \<le> 90 then Some (n - 65)
      else if 97 \<le> n \<and> n \<le> 122 then Some (n - 71)
      else if 48 \<le> n \<and> n \<le> 57 then Some (n + 4)
      else if n = 0x2d \<or> n = 0x2b then Some 62
      else if n = 0x5f \<or> n = 0x2f then Some 63
      else None)"

text \<open>
  The decoder of \<^verbatim>\<open>binascii.a2b_base64\<close> without strict mode: characters outside the
  alphabet are skipped, padding after at least two characters of a group ends the input,
  and an incomplete last group is an error. The state is the position in the group of
  four, the bits left over, the count of padding characters and the output.
\<close>

fun a2b_base64 :: "nat \<Rightarrow> nat \<Rightarrow> nat \<Rightarrow> bytes \<Rightarrow> bytes \<Rightarrow> exn + bytes" where
  "a2b_base64 quad_pos leftchar pads out [] =
     (if quad_pos \<noteq> 0 then Inl (Raise ValueError ''Incorrect padding'') else Inr out)"
| "a2b_base64 quad_pos leftchar pads out (c # cs) =
     (if c = b64_pad then
        (if quad_pos \<ge> 2 \<and> quad_pos + (pads + 1) \<ge> 4 then Inr out
         else a2b_base64 quad_pos leftchar (if quad_pos \<ge> 2 then pads + 1 else pads) out cs)
      else
        (case b64_value c of
           None \<Rightarrow> a2b_base64 quad_pos leftchar pads out cs
         | Some v \<Rightarrow>
             if quad_pos = 0 then a2b_base64 1 v 0 out cs
             else if quad_pos = 1 then
               a2b_base64 2 (v mod 16) 0 (out @ [of_nat (leftchar * 4 + v div 16)]) cs
             else if quad_pos = 2 then
               a2b_base64 3 (v mod 4) 0 (out @ [of_nat (leftchar * 16 + v div 4)]) cs
             else a2b_base64 0 0 0 (out @ [of_nat (leftchar * 64 + v)]) cs))"

definition urlsafe_b64decode :: "bytes \<Rightarrow> exn + bytes" where
  "urlsafe_b64decode s = a2b_base64 0 0 0 [] s"

subsection \<open>AES-128 (FIPS 197)\<close>

definition sbox_table :: "byte list" where
  "sbox_table =
    [0x63, 0x7c, 0x77, 0x7b, 0xf2, 0x6b, 0x6f, 0xc5, 0x30, 0x01, 0x67, 0x2b,
     0xfe, 0xd7, 0xab, 0x76, 0xca, 0x82, 0xc9, 0x7d, 0xfa, 0x59, 0x47, 0xf0,
     0xad, 0xd4, 0xa2, 0xaf, 0x9c, 0xa4, 0x72, 0xc0, 0xb7, 0xfd, 0x93, 0x26,
     0x36, 0x3f, 0xf7, 0xcc, 0x34, 0xa5, 0xe5, 0xf1, 0x71, 0xd8, 0x31, 0x15,
     0x04, 0xc7, 0x23, 0xc3, 0x18, 0x96, 0x05, 0x9a, 0x07, 0x12, 0x80, 0xe2,
     0xeb, 0x27, 0xb2, 0x75, 0x09, 0x83, 0x2c, 0x1a, 0x1b, 0x6e, 0x5a, 0xa0,
     0x52, 0x3b, 0xd6, 0xb3, 0x29, 0xe3, 0x2f, 0x84, 0x53, 0xd1, 0x00, 0xed,
     0x20, 0xfc, 0xb1, 0x5b, 0x6a, 0xcb, 0xbe, 0x39, 0x4a, 0x4c, 0x58, 0xcf,
     0xd0, 0xef, 0xaa, 0xfb, 0x43, 0x4d, 0x33, 0x85, 0x45, 0xf9, 0x02, 0x7f,
     0x50, 0x3c, 0x9f, 0xa8, 0x51, 0xa3, 0x40, 0x8f, 0x92, 0x9d, 0x38, 0xf5,
     0xbc, 0xb6, 0xda, 0x21, 0x10, 0xff, 0xf3, 0xd2, 0xcd, 0x0c, 0x13, 0xec,
     0x5f, 0x97, 0x44, 0x17, 0xc4, 0xa7, 0x7e, 0x3d, 0x64, 0x5d, 0x19, 0x73,
     0x60, 0x81, 0x4f, 0xdc, 0x22, 0x2a, 0x90, 0x88, 0x46, 0xee, 0xb8, 0x14,
     0xde, 0x5e, 0x0b, 0xdb, 0xe0, 0x32, 0x3a, 0x0a, 0x49, 0x06, 0x24, 0x5c,
     0xc2, 0xd3, 0xac, 0x62, 0x91, 0x95, 0xe4, 0x79, 0xe7, 0xc8, 0x37, 0x6d,
     0x8d, 0xd5, 0x4e, 0xa9, 0x6c, 0x56, 0xf4, 0xea, 0x65, 0x7a, 0xae, 0x08,
     0xba, 0x78, 0x25, 0x2e, 0x1c, 0xa6, 0xb4, 0xc6, 0xe8, 0xdd, 0x74, 0x1f,
     0x4b, 0xbd, 0x8b, 0x8a, 0x70, 0x3e, 0xb5, 0x66, 0x48, 0x03, 0xf6, 0x0e,
     0x61, 0x35, 0x57, 0xb9, 0x86, 0xc1, 0x1d, 0x9e, 0xe1, 0xf8, 0x98, 0x11,
     0x69, 0xd9, 0x8e, 0x94, 0x9b, 0x1e, 0x87, 0xe9, 0xce, 0x55, 0x28, 0xdf,
     0x8c, 0xa1, 0x89, 0x0d, 0xbf, 0xe6, 0x42, 0x68, 0x41, 0x99, 0x2d, 0x0f,
     0xb0, 0x54, 0xbb, 0x16]"

definition inv_sbox_table :: "byte list" where
  "inv_sbox_table =
    [0x52, 0x09, 0x6a, 0xd5, 0x30, 0x36, 0xa5, 0x38, 0xbf, 0x40, 0xa3, 0x9e,
     0x81, 0xf3, 0xd7, 0xfb, 0x7c, 0xe3, 0x39, 0x82, 0x9b, 0x2f, 0xff, 0x87,
     0x34, 0x8e, 0x43, 0x44, 0xc4, 0xde, 0xe9, 0xcb, 0x54, 0x7b, 0x94, 0x32,
     0xa6, 0xc2, 0x23, 0x3d, 0xee, 0x4c, 0x95, 0x0b, 0x42, 0xfa, 0xc3, 0x4e,
     0x08, 0x2e, 0xa1, 0x66, 0x28, 0xd9, 0x24, 0xb2, 0x76, 0x5b, 0xa2, 0x49,
     0x6d, 0x8b, 0xd1, 0x25, 0x72, 0xf8, 0xf6, 0x64, 0x86, 0x68, 0x98, 0x16,
     0xd4, 0xa4, 0x5c, 0xcc, 0x5d, 0x65, 0xb6, 0x92, 0x6c, 0x70, 0x48, 0x50,
     0xfd, 0xed, 0xb9, 0xda, 0x5e, 0x15, 0x46, 0x57, 0xa7, 0x8d, 0x9d, 0x84,
     0x90, 0xd8, 0xab, 0x00, 0x8c, 0xbc, 0xd3, 0x0a, 0xf7, 0xe4, 0x58, 0x05,
     0xb8, 0xb3, 0x45, 0x06, 0xd0, 0x2c, 0x1e, 0x8f, 0xca, 0x3f, 0x0f, 0x02,
     0xc1, 0xaf, 0xbd, 0x03, 0x01, 0x13, 0x8a, 0x6b, 0x3a, 0x91, 0x11, 0x41,
     0x4f, 0x67, 0xdc, 0xea, 0x97, 0xf2, 0xcf, 0xce, 0xf0, 0xb4, 0xe6, 0x73,
     0x96, 0xac, 0x74, 0x22, 0xe7, 0xad, 0x35, 0x85, 0xe2, 0xf9, 0x37, 0xe8,
     0x1c, 0x75, 0xdf, 0x6e, 0x47, 0xf1, 0x1a, 0x71, 0x1d, 0x29, 0xc5, 0x89,
     0x6f, 0xb7, 0x62, 0x0e, 0xaa, 0x18, 0xbe, 0x1b, 0xfc, 0x56, 0x3e, 0x4b,
     0xc6, 0xd2, 0x79, 0x20, 0x9a, 0xdb, 0xc0, 0xfe, 0x78, 0xcd, 0x5a, 0xf4,
     0x1f, 0xdd, 0xa8, 0x33, 0x88, 0x07, 0xc7, 0x31, 0xb1, 0x12, 0x10, 0x59,
     0x27, 0x80, 0xec, 0x5f, 0x60, 0x51, 0x7f, 0xa9, 0x19, 0xb5, 0x4a, 0x0d,
     0x2d, 0xe5, 0x7a, 0x9f, 0x93, 0xc9, 0x9c, 0xef, 0xa0, 0xe0, 0x3b, 0x4d,
     0xae, 0x2a, 0xf5, 0xb0, 0xc8, 0xeb, 0xbb, 0x3c, 0x83, 0x53, 0x99, 0x61,
     0x17, 0x2b, 0x04, 0x7e, 0xba, 0x77, 0xd6, 0x26, 0xe1, 0x69, 0x14, 0x63,
     0x55, 0x21, 0x0c, 0x7d]"

definition sbox :: "byte \<Rightarrow> byte" where
  "sbox b = sbox_table ! unat b"

definition inv_sbox :: "byte \<Rightarrow> byte" where
  "inv_sbox b = inv_sbox_table ! unat b"

definition xtime :: "byte \<Rightarrow> byte" where
  "xtime b = (if bit b 7 then push_bit 1 b XOR 0x1b else push_bit 1 b)"

definition mul9 :: "byte \<Rightarrow> byte" where
  "mul9 x = xtime (xtime (xtime x)) XOR x"

definition mul11 :: "byte \<Rightarrow> byte" where
  "mul11 x = xtime (xtime (xtime x)) XOR xtime x XOR x"

definition mul13 :: "byte \<Rightarrow> byte" where
  "mul13 x = xtime (xtime (xtime x)) XOR xtime (xtime x) XOR x"

definition mul14 :: "byte \<Rightarrow> byte" where
  "mul14 x = xtime (xtime (xtime x)) XOR xtime (xtime x) XOR xtime x"

text \<open>The state is the block of 16 bytes in input order, that is column by column.\<close>

fun mix_column :: "bytes \<Rightarrow> bytes" where
  "mix_column [a, b, c, d] =
     [xtime a XOR (xtime b XOR b) XOR c XOR d,
      a XOR xtime b XOR (xtime c XOR c) XOR d,
      a XOR b XOR xtime c XOR (xtime d XOR d),
      (xtime a XOR a) XOR b XOR c XOR xtime d]"
| "mix_column col = col"

fun inv_mix_column :: "bytes \<Rightarrow> bytes" where
  "inv_mix_column [a, b, c, d] =
     [mul14 a XOR mul11 b XOR mul13 c XOR mul9 d,
      mul9 a XOR mul14 b XOR mul11 c XOR mul13 d,
      mul13 a XOR mul9 b XOR mul14 c XOR mul11 d,
      mul11 a XOR mul13 b XOR mul9 c XOR mul14 d]"
| "inv_mix_column col = col"

definition sub_bytes :: "bytes \<Rightarrow> bytes" where
  "sub_bytes s = map sbox s"

definition inv_sub_bytes :: "bytes \<Rightarrow> bytes" where
  "inv_sub_bytes s = map inv_sbox s"

fun shift_rows :: "bytes \<Rightarrow> bytes" where
  "shift_rows [s0, s1, s2, s3, s4, s5, s6, s7, s8, s9, s10, s11, s12, s13, s14, s15] =
     [s0, s5, s10, s15, s4, s9, s14, s3, s8, s13, s2, s7, s12, s1, s6, s11]"
| "shift_rows s = s"

fun inv_shift_rows :: "bytes \<Rightarrow> bytes" where
  "inv_shift_rows [s0, s1, s2, s3, s4, s5, s6, s7, s8, s9, s10, s11, s12, s13, s14, s15] =
     [s0, s13, s10, s7, s4, s1, s14, s11, s8, s5, s2, s15, s12, s9, s6, s3]"
| "inv_shift_rows s = s"

fun mix_columns :: "bytes \<Rightarrow> bytes" where
  "mix_columns [s0, s1, s2, s3, s4, s5, s6, s7, s8, s9, s10, s11, s12, s13, s14, s15] =
     mix_column [s0, s1, s2, s3] @ mix_column [s4, s5, s6, s7]
     @ mix_column [s8, s9, s10, s11] @ mix_column [s12, s13, s14, s15]"
| "mix_columns s = s"

fun inv_mix_columns :: "bytes \<Rightarrow> bytes" where
  "inv_mix_columns [s0, s1, s2, s3, s4, s5, s6, s7, s8, s9, s10, s11, s12, s13, s14, s15] =
     inv_mix_column [s0, s1, s2, s3] @ inv_mix_column [s4, s5, s6, s7]
     @ inv_mix_column [s8, s9, s10, s11] @ inv_mix_column [s12, s13, s14, s15]"
| "inv_mix_columns s = s"

definition xor_bytes :: "bytes \<Rightarrow> bytes \<Rightarrow> bytes" where
  "xor_bytes a b = map2 (XOR) a b"

definition add_round_key :: "bytes \<Rightarrow> bytes \<Rightarrow> bytes" where
  "add_round_key k s = xor_bytes s k"

definition rcon :: "byte list" where
  "rcon = [0x01, 0x02, 0x04, 0x08, 0x10, 0x20, 0x40, 0x80, 0x1b, 0x36]"

definition next_round_key :: "byte \<Rightarrow> bytes \<Rightarrow> bytes" where
  "next_round_key rc k =
     (let w0 = take 4 k; w1 = take 4 (drop 4 k); w2 = take 4 (drop 8 k);
          w3 = take 4 (drop 12 k);
          t = xor_bytes (map sbox (rotate1 w3)) [rc, 0, 0, 0];
          w4 = xor_bytes w0 t;
          w5 = xor_bytes w1 w4;
          w6 = xor_bytes w2 w5;
          w7 = xor_bytes w3 w6
      in w4 @ w5 @ w6 @ w7)"

fun key_expansion :: "byte list \<Rightarrow> bytes \<Rightarrow> bytes list" where
  "key_expansion [] k = [k]"
| "key_expansion (rc # rcs) k = k # key_expansion rcs (next_round_key rc k)"

definition aes_round :: "bytes \<Rightarrow> bytes \<Rightarrow> bytes" where
  "aes_round s k = add_round_key k (mix_columns (shift_rows (sub_bytes s)))"

definition aes_inv_round :: "bytes \<Rightarrow> bytes \<Rightarrow> bytes" where
  "aes_inv_round k s = inv_sub_bytes (inv_shift_rows (inv_mix_columns (add_round_key k s)))"

definition aes128_encrypt_block :: "bytes \<Rightarrow> bytes \<Rightarrow> bytes" where
  "aes128_encrypt_block key block =
     (let ks = key_expansion rcon key;
          s = foldl aes_round (add_round_key (hd ks) block) (butlast (tl ks))
      in add_round_key (last ks) (shift_rows (sub_bytes s)))"

definition aes128_decrypt_block :: "bytes \<Rightarrow> bytes \<Rightarrow> bytes" where
  "aes128_decrypt_block key block =
     (let ks = key_expansion rcon key;
          s = inv_sub_bytes (inv_shift_rows (add_round_key (last ks) block))
      in add_round_key (hd ks) (foldr aes_inv_round (butlast (tl ks)) s))"

subsection \<open>CBC mode and PKCS7 padding\<close>

fun cbc_encrypt :: "bytes \<Rightarrow> bytes \<Rightarrow> bytes list \<Rightarrow> bytes" where
  "cbc_encrypt key prev [] = []"
| "cbc_encrypt key prev (p # ps) =
     (let c = aes128_encrypt_block key (xor_bytes p prev) in c @ cbc_encrypt key c ps)"

fun cbc_decrypt :: "bytes \<Rightarrow> bytes \<Rightarrow> bytes list \<Rightarrow> bytes" where
  "cbc_decrypt key prev [] = []"
| "cbc_decrypt key prev (c # cs) =
     xor_bytes (aes128_decrypt_block key c) prev @ cbc_decrypt key c cs"

definition pkcs7_pad :: "bytes \<Rightarrow> bytes" where
  "pkcs7_pad m = (let n = 16 - length m mod 16 in m @ replicate n (of_nat n))"

definition pkcs7_unpad :: "bytes \<Rightarrow> exn + bytes" where
  "pkcs7_unpad m =
     (if m = [] then Inl (Raise ValueError ''Invalid padding bytes.'')
      else let n = unat (last m) in
        if n = 0 \<or> n > 16 \<or> n > length m
           \<or> drop (length m - n) m \<noteq> replicate n (last m)
        then Inl (Raise ValueError ''Invalid padding bytes.'')
        else Inr (take (length m - n) m))"

subsection \<open>Fernet (the specification of the token format, version 0x80)\<close>

record fernet =
  signing_key :: bytes
  encryption_key :: bytes

text \<open>\<^verbatim>\<open>Fernet(key)\<close>: the key is 32 bytes in URL-safe base64.\<close>

definition Fernet :: "bytes \<Rightarrow> exn + fernet" where
  "Fernet key =
     (case urlsafe_b64decode key of
        Inl e \<Rightarrow> Inl (Raise ValueError ''Fernet key must be 32 url-safe base64-encoded bytes.'')
      | Inr k \<Rightarrow>
          if length k \<noteq> 32
          then Inl (Raise ValueError ''Fernet key must be 32 url-safe base64-encoded bytes.'')
          else Inr \<lparr>signing_key = take 16 k, encryption_key = drop 16 k\<rparr>)"

text \<open>
  \<^verbatim>\<open>f.encrypt(data)\<close> with the two values it draws from its environment: the current time
  in seconds and 16 random bytes for the initialisation vector.
\<close>

definition fernet_encrypt :: "fernet \<Rightarrow> nat \<Rightarrow> bytes \<Rightarrow> bytes \<Rightarrow> bytes" where
  "fernet_encrypt f current_time iv data =
     (let ciphertext = cbc_encrypt (encryption_key f) iv (chunks 16 (pkcs7_pad data));
          basic_parts = [0x80] @ be_bytes 8 current_time @ iv @ ciphertext;
          hmac = hmac_sha256 (signing_key f) basic_parts
      in urlsafe_b64encode (basic_parts @ hmac))"

definition invalid_token :: exn where
  "invalid_token = Raise InvalidToken []"

definition fernet_decrypt :: "fernet \<Rightarrow> bytes \<Rightarrow> exn + bytes" where
  "fernet_decrypt f token =
     (case urlsafe_b64decode token of
        Inl e \<Rightarrow> Inl invalid_token
      | Inr data \<Rightarrow>
          if data = [] \<or> hd data \<noteq> 0x80 then Inl invalid_token
          else if length data < 9 then Inl invalid_token
          else if hmac_sha256 (signing_key f) (take (length data - 32) data)
                  \<noteq> drop (length data - 32) data then Inl invalid_token
          else
            (let iv = take 16 (drop 9 data);
                 ciphertext = drop 25 (take (length data - 32) data)
             in if length ciphertext mod 16 \<noteq> 0 then Inl invalid_token
                else (case pkcs7_unpad (cbc_decrypt (encryption_key f) iv (chunks 16 ciphertext)) of
                        Inl e \<Rightarrow> Inl invalid_token
                      | Inr plaintext \<Rightarrow> Inr plaintext)))"

section \<open>encryption.py\<close>

text \<open>
  The local file system, as far as the program reads and writes it: the content of every
  file that exists, by path.
\<close>

type_synonym filesystem = "string \<rightharpoonup> bytes"

definition open_rb :: "filesystem \<Rightarrow> string \<Rightarrow> exn + bytes" where
  "open_rb fs path =
     (case fs path of
        None \<Rightarrow> Inl (Raise FileNotFoundError
                 (''[Errno 2] No such file or directory: '' @ repr_str path))
      | Some file_data \<Rightarrow> Inr file_data)"

text \<open>
  \<^verbatim>\<open>s.replace(old, new)\<close>: every occurrence of \<open>old\<close>, found from left to right without
  overlap; an empty \<open>old\<close> matches before every character and at the end.
\<close>

function str_replace :: "string \<Rightarrow> string \<Rightarrow> string \<Rightarrow> string" where
  "str_replace old new s =
     (if old = [] then new @ concat (map (\<lambda>c. c # new) s)
      else if s = [] then []
      else if take (length old) s = old
        then new @ str_replace old new (drop (length old) s)
      else hd s # str_replace old new (tl s))"
  by pat_completeness auto
termination
  by (relation "measure (\<lambda>(old, new, s). length s)") auto

declare str_replace.simps [simp del]

text \<open>
  The object holds one salt. \<^verbatim>\<open>DataEncryption()\<close> draws it in the constructor; the
  argument of \<open>DataEncryption_init\<close> is what \<^verbatim>\<open>os.urandom(16)\<close> returned there.
\<close>

record data_encryption =
  salt :: bytes

definition DataEncryption_init :: "bytes \<Rightarrow> data_encryption" where
  "DataEncryption_init urandom16 = \<lparr>salt = urandom16\<rparr>"

definition generate_key :: "data_encryption \<Rightarrow> string \<Rightarrow> bytes" where
  "generate_key self password =
     urlsafe_b64encode (pbkdf2_hmac_sha256 (encode password) (salt self) 100000 32)"

text \<open>
  \<^verbatim>\<open>encrypt_file\<close> reads the clock and 16 random bytes inside \<^verbatim>\<open>Fernet.encrypt\<close>; they
  are the arguments \<open>current_time\<close> and \<open>iv\<close>. The result is the file system after
  the call with the returned pair.
\<close>

definition encrypt_file ::
  "data_encryption \<Rightarrow> nat \<Rightarrow> bytes \<Rightarrow> filesystem \<Rightarrow> string \<Rightarrow> string
   \<Rightarrow> exn + (filesystem \<times> string \<times> bytes)" where
  "encrypt_file self current_time iv fs file_path password =
     (let key = generate_key self password in
      bind (Fernet key) (\<lambda>f.
      bind (open_rb fs file_path) (\<lambda>file_data.
        let encrypted_data = fernet_encrypt f current_time iv file_data;
            encrypted_file_path = file_path @ ''.encrypted''
        in Inr (fs(encrypted_file_path \<mapsto> encrypted_data), encrypted_file_path, salt self))))"

text \<open>
  \<^verbatim>\<open>decrypt_file\<close> assigns \<^verbatim>\<open>self.salt\<close> first, so the object is part of the result.
\<close>

definition decrypt_file ::
  "data_encryption \<Rightarrow> filesystem \<Rightarrow> string \<Rightarrow> string \<Rightarrow> bytes
   \<Rightarrow> exn + (data_encryption \<times> filesystem \<times> string)" where
  "decrypt_file self0 fs encrypted_file_path password salt0 =
     (let self = self0\<lparr>salt := salt0\<rparr>;
          key = generate_key self password in
      bind (Fernet key) (\<lambda>f.
      bind (open_rb fs encrypted_file_path) (\<lambda>encrypted_data.
      bind (fernet_decrypt f encrypted_data) (\<lambda>decrypted_data.
        let decrypted_file_path = str_replace ''.encrypted'' ''.decrypted'' encrypted_file_path
        in Inr (self, fs(decrypted_file_path \<mapsto> decrypted_data), decrypted_file_path)))))"

section \<open>data\_manager.py\<close>

text \<open>
  The IPFS client is a library outside the repository. It is modelled as a
  content-addressed store: \<open>cid\<close> and \<open>json_cid\<close> name a file content and a JSON
  document, \<^verbatim>\<open>add\<close> and \<^verbatim>\<open>add_json\<close> store under that name, \<^verbatim>\<open>get_json\<close> returns
  the document of a name, and \<^verbatim>\<open>get\<close> writes the content into the local file named by
  the hash and returns that path, which is how the program uses its result.
\<close>

record ipfs_api =
  cid :: "bytes \<Rightarrow> string"
  json_cid :: "pyval \<Rightarrow> string"
  blobs :: "string \<rightharpoonup> bytes"
  documents :: "string \<rightharpoonup> pyval"

definition ipfs_add :: "ipfs_api \<Rightarrow> filesystem \<Rightarrow> string \<Rightarrow> exn + (ipfs_api \<times> string)" where
  "ipfs_add api fs path =
     bind (open_rb fs path) (\<lambda>file_data.
       Inr (api\<lparr>blobs := (blobs api)(cid api file_data \<mapsto> file_data)\<rparr>, cid api file_data))"

definition ipfs_add_json :: "ipfs_api \<Rightarrow> pyval \<Rightarrow> ipfs_api \<times> string" where
  "ipfs_add_json api obj =
     (api\<lparr>documents := (documents api)(json_cid api obj \<mapsto> obj)\<rparr>, json_cid api obj)"

definition ipfs_get_json :: "ipfs_api \<Rightarrow> string \<Rightarrow> exn + pyval" where
  "ipfs_get_json api h =
     (case documents api h of
        None \<Rightarrow> Inl (Raise ValueError (''no such object: '' @ h))
      | Some obj \<Rightarrow> Inr obj)"

definition ipfs_get :: "ipfs_api \<Rightarrow> filesystem \<Rightarrow> pyval \<Rightarrow> exn + (filesystem \<times> string)" where
  "ipfs_get api fs v =
     (case v of
        PStr h \<Rightarrow>
          (case blobs api h of
             None \<Rightarrow> Inl (Raise ValueError (''no such object: '' @ h))
           | Some file_data \<Rightarrow> Inr (fs(h \<mapsto> file_data), h))
      | _ \<Rightarrow> Inl (Raise TypeError (''not a hash: '' @ type_name v)))"

record data_manager =
  ipfs :: ipfs_api
  encryption :: data_encryption

text \<open>
  \<^verbatim>\<open>DataManager(ipfs_node)\<close>, given the connected client and the 16 random bytes that the
  constructor of \<^verbatim>\<open>DataEncryption\<close> draws.
\<close>

definition DataManager_init :: "ipfs_api \<Rightarrow> bytes \<Rightarrow> data_manager" where
  "DataManager_init client urandom16 =
     \<lparr>ipfs = client, encryption = DataEncryption_init urandom16\<rparr>"

text \<open>
  \<^verbatim>\<open>_calculate_file_hash\<close>: the file is read in blocks of 4096 bytes, each passed to
  \<^verbatim>\<open>update\<close>, which appends to what the hash object has been fed.
\<close>

definition calculate_file_hash :: "filesystem \<Rightarrow> string \<Rightarrow> exn + string" where
  "calculate_file_hash fs file_path =
     bind (open_rb fs file_path) (\<lambda>file_data.
       Inr (hex (sha256 (foldl (\<lambda>fed byte_block. fed @ byte_block) [] (chunks 4096 file_data)))))"

text \<open>\<^verbatim>\<open>d[k] = v\<close> on a dictionary: a present key keeps its place.\<close>

fun dict_set :: "pydict \<Rightarrow> string \<Rightarrow> pyval \<Rightarrow> pydict" where
  "dict_set [] k v = [(k, v)]"
| "dict_set ((k', v') # d) k v =
     (if k' = k then (k, v) # d else (k', v') # dict_set d k v)"

text \<open>Truth value of a Python value, and of an \<^verbatim>\<open>Optional[str]\<close>.\<close>

fun truthy :: "pyval \<Rightarrow> bool" where
  "truthy PNone = False"
| "truthy (PBool b) = b"
| "truthy (PInt i) = (i \<noteq> 0)"
| "truthy (PFloat r) = (r \<noteq> 0)"
| "truthy (PStr s) = (s \<noteq> [])"
| "truthy (PList vs) = (vs \<noteq> [])"
| "truthy (PDict d) = (d \<noteq> [])"

fun truthy_opt :: "string option \<Rightarrow> bool" where
  "truthy_opt None = False"
| "truthy_opt (Some s) = (s \<noteq> [])"

text \<open>
  \<^verbatim>\<open>upload_dataset\<close>. The result holds the object and the file system after the call,
  the caller's \<^verbatim>\<open>metadata\<close> dictionary, which the call assigns to, and the returned
  dictionary.
\<close>

definition upload_dataset ::
  "data_manager \<Rightarrow> nat \<Rightarrow> bytes \<Rightarrow> filesystem \<Rightarrow> string \<Rightarrow> pydict \<Rightarrow> string option
   \<Rightarrow> exn + (data_manager \<times> filesystem \<times> pydict \<times> pydict)" where
  "upload_dataset self current_time iv fs file_path metadata0 password =
     bind (calculate_file_hash fs file_path) (\<lambda>file_hash.
     bind (if truthy_opt password
           then bind (encrypt_file (encryption self) current_time iv fs file_path
                        (case password of Some p \<Rightarrow> p | None \<Rightarrow> []))
                  (\<lambda>(fs1, encrypted_file_path, salt1).
                bind (ipfs_add (ipfs self) fs1 encrypted_file_path) (\<lambda>(api, ipfs_hash).
                  Inr (api, fs1, ipfs_hash,
                       dict_set (dict_set metadata0 ''encrypted'' (PBool True))
                         ''salt'' (PStr (hex salt1)))))
           else bind (ipfs_add (ipfs self) fs file_path) (\<lambda>(api, ipfs_hash).
                  Inr (api, fs, ipfs_hash, dict_set metadata0 ''encrypted'' (PBool False))))
       (\<lambda>(api, fs1, ipfs_hash, metadata).
          let metadata_obj = PDict [(''file_hash'', PStr file_hash),
                                    (''ipfs_hash'', PStr ipfs_hash),
                                    (''metadata'', PDict metadata)];
              (api1, metadata_hash) = ipfs_add_json api metadata_obj
          in Inr (self\<lparr>ipfs := api1\<rparr>, fs1, metadata,
                  [(''metadata_hash'', PStr metadata_hash),
                   (''ipfs_hash'', PStr ipfs_hash),
                   (''file_hash'', PStr file_hash)])))"

text \<open>\<^verbatim>\<open>obj[k]\<close> and \<^verbatim>\<open>obj.get(k, default)\<close> on a value that came from JSON.\<close>

definition subscript :: "pyval \<Rightarrow> string \<Rightarrow> exn + pyval" where
  "subscript obj k =
     (case obj of
        PDict d \<Rightarrow>
          (case map_of d k of None \<Rightarrow> Inl (Raise KeyError (repr_str k)) | Some v \<Rightarrow> Inr v)
      | _ \<Rightarrow> Inl (Raise TypeError (repr_str (type_name obj) @ '' object is not subscriptable'')))"

definition py_get :: "pyval \<Rightarrow> string \<Rightarrow> pyval \<Rightarrow> exn + pyval" where
  "py_get obj k dflt =
     (case obj of PDict d \<Rightarrow> Inr (dict_get d k dflt) | _ \<Rightarrow> Inl (no_attribute obj ''get''))"

text \<open>
  \<^verbatim>\<open>bytes.fromhex\<close>: pairs of hexadecimal digits, with white space allowed between the
  pairs. The message of the error leaves out the position.
\<close>

definition hex_value :: "char \<Rightarrow> nat option" where
  "hex_value c =
     map_of (zip ''0123456789abcdefABCDEF''
               [0, 1, 2, 3, 4, 5, 6, 7, 8, 9, 10, 11, 12, 13, 14, 15, 10, 11, 12, 13, 14, 15]) c"

definition is_space :: "char \<Rightarrow> bool" where
  "is_space c = (c \<in> set [CHR '' '', CHR 0x09, CHR 0x0A, CHR 0x0B, CHR 0x0C, CHR 0x0D])"

fun fromhex_str :: "string \<Rightarrow> exn + bytes" where
  "fromhex_str [] = Inr []"
| "fromhex_str [c] =
     (if is_space c then Inr []
      else Inl (Raise ValueError ''non-hexadecimal number found in fromhex() arg''))"
| "fromhex_str (c # d # rest) =
     (if is_space c then fromhex_str (d # rest)
      else (case (hex_value c, hex_value d) of
              (Some a, Some b) \<Rightarrow>
                bind (fromhex_str rest) (\<lambda>bs. Inr (of_nat (16 * a + b) # bs))
            | _ \<Rightarrow> Inl (Raise ValueError ''non-hexadecimal number found in fromhex() arg'')))"

definition fromhex :: "pyval \<Rightarrow> exn + bytes" where
  "fromhex v =
     (case v of
        PStr s \<Rightarrow> fromhex_str s
      | _ \<Rightarrow> Inl (Raise TypeError (''fromhex() argument must be str, not '' @ type_name v)))"

text \<open>
  \<^verbatim>\<open>retrieve_dataset\<close>. The result holds the object and the file system after the call
  and the returned pair.
\<close>

definition retrieve_dataset ::
  "data_manager \<Rightarrow> filesystem \<Rightarrow> string \<Rightarrow> string option
   \<Rightarrow> exn + (data_manager \<times> filesystem \<times> string \<times> pyval)" where
  "retrieve_dataset self fs metadata_hash password =
     bind (ipfs_get_json (ipfs self) metadata_hash) (\<lambda>metadata.
     bind (subscript metadata ''ipfs_hash'') (\<lambda>ipfs_hash.
     bind (ipfs_get (ipfs self) fs ipfs_hash) (\<lambda>(fs1, dataset_path).
     bind (py_get metadata ''encrypted'' (PBool False)) (\<lambda>encrypted.
       if truthy encrypted \<and> truthy_opt password
       then bind (subscript metadata ''salt'') (\<lambda>salt_hex.
            bind (fromhex salt_hex) (\<lambda>salt1.
            bind (decrypt_file (encryption self) fs1 dataset_path
                    (case password of Some p \<Rightarrow> p | None \<Rightarrow> []) salt1)
              (\<lambda>(enc, fs2, decrypted_path).
                 Inr (self\<lparr>encryption := enc\<rparr>, fs2, decrypted_path, metadata))))
       else Inr (self, fs1, dataset_path, metadata)))))"

section \<open>Notions used in the statements\<close>

text \<open>
  The \<^verbatim>\<open>Fernet\<close> object that \<^verbatim>\<open>encrypt_file\<close> and \<^verbatim>\<open>decrypt_file\<close> build for a password:
  the two halves of the 32 bytes derived from the password and the salt of the object.
\<close>

definition key_material :: "data_encryption \<Rightarrow> string \<Rightarrow> bytes" where
  "key_material self password =
     pbkdf2_hmac_sha256 (encode password) (salt self) 100000 32"

definition fernet_of :: "data_encryption \<Rightarrow> string \<Rightarrow> fernet" where
  "fernet_of self password =
     \<lparr>signing_key = take 16 (key_material self password),
      encryption_key = drop 16 (key_material self password)\<rparr>"

text \<open>The part of a token that its HMAC tag signs.\<close>

definition signed_parts :: "fernet \<Rightarrow> nat \<Rightarrow> bytes \<Rightarrow> bytes \<Rightarrow> bytes" where
  "signed_parts f current_time iv data =
     [0x80] @ be_bytes 8 current_time @ iv
     @ cbc_encrypt (encryption_key f) iv (chunks 16 (pkcs7_pad data))"

text \<open>The salt in the pair that \<^verbatim>\<open>encrypt_file\<close> returns.\<close>

fun returned_salt :: "exn + (filesystem \<times> string \<times> bytes) \<Rightarrow> bytes option" where
  "returned_salt (Inl e) = None"
| "returned_salt (Inr (fs, path, s)) = Some s"


section \<open>Properties of the quality checker\<close>

subsection \<open>Consistency\<close>

lemma quantile_example_q1:
  "quantile [Number 1, Number 2, Number 3, Number 4, Number 100] (1/4) = Fl 2"
  by (simp add: quantile_def Let_def)

lemma quantile_example_q3:
  "quantile [Number 1, Number 2, Number 3, Number 4, Number 100] (3/4) = Fl 4"
  by (simp add: quantile_def Let_def)

lemma iqr_bounds_example:
  "iqr_bounds [Number 1, Number 2, Number 3, Number 4, Number 100] = (Fl (- 1), Fl 7)"
  by (simp add: iqr_bounds_def quantile_example_q1 quantile_example_q3)

lemma iqr_outliers_example:
  "iqr_outliers [Number 1, Number 2, Number 3, Number 4, Number 100] = [Number 100]"
  by (simp add: iqr_outliers_def iqr_bounds_example)

lemma check_consistency_example:
  "check_consistency \<lparr>nrows = 5, columns = [\<lparr>col_name = name, dtype = ''int64'',
      cells = [Number 1, Number 2, Number 3, Number 4, Number 100]\<rparr>]\<rparr> = Inr (Fl 0.8)"
  by (simp add: check_consistency_def column_names_def getitem_def is_numeric_def
        quantile_example_q1 quantile_example_q3 bind_def np_mean_def Let_def)

text \<open>A column with an outlier below the lower bound, one with a missing cell, and text.\<close>

lemma quantile_low_q1:
  "quantile [Number (- 100), Number 1, Number 2, Number 3, Number 4] (1/4) = Fl 1"
  by (simp add: quantile_def Let_def)

lemma quantile_low_q3:
  "quantile [Number (- 100), Number 1, Number 2, Number 3, Number 4] (3/4) = Fl 3"
  by (simp add: quantile_def Let_def)

lemma quantile_missing_q1:
  "quantile [Number 1, Number 2, Number 3, Missing, Number 5] (1/4) = Fl (7/4)"
  by (simp add: quantile_def Let_def)

lemma quantile_missing_q3:
  "quantile [Number 1, Number 2, Number 3, Missing, Number 5] (3/4) = Fl (7/2)"
  by (simp add: quantile_def Let_def)

lemma check_consistency_low_outlier:
  "check_consistency \<lparr>nrows = 5, columns =
      [\<lparr>col_name = ''a'', dtype = ''int64'',
          cells = [Number (- 100), Number 1, Number 2, Number 3, Number 4]\<rparr>,
       \<lparr>col_name = ''b'', dtype = ''float64'',
          cells = [Number 1, Number 2, Number 3, Missing, Number 5]\<rparr>,
       \<lparr>col_name = ''c'', dtype = ''object'',
          cells = [Text ''u'', Text ''v'', Text ''w'', Text ''x'', Text ''y'']\<rparr>]\<rparr>
   = Inr (Fl 0.9)"
  by (simp add: check_consistency_def column_names_def getitem_def is_numeric_def
        quantile_low_q1 quantile_low_q3 quantile_missing_q1 quantile_missing_q3
        bind_def np_mean_def Let_def)

lemma check_consistency_no_rows:
  "check_consistency \<lparr>nrows = 0, columns = [\<lparr>col_name = ''a'', dtype = ''int64'',
      cells = []\<rparr>]\<rparr> = Inl (Raise ZeroDivisionError ''division by zero'')"
  by (simp add: check_consistency_def column_names_def getitem_def is_numeric_def
        bind_def Let_def)

lemma check_consistency_repeated_label:
  "check_consistency \<lparr>nrows = 1, columns =
      [\<lparr>col_name = ''a'', dtype = ''int64'', cells = [Number 1]\<rparr>,
       \<lparr>col_name = ''a'', dtype = ''int64'', cells = [Number 2]\<rparr>]\<rparr>
   = Inl (Raise AttributeError
            (repr_str ''DataFrame'' @ '' object has no attribute '' @ repr_str ''dtype''))"
  by (simp add: check_consistency_def column_names_def getitem_def no_dtype_def bind_def)

lemma filter_distinct_label:
  "distinct (map f xs) \<Longrightarrow> x \<in> set xs \<Longrightarrow> filter (\<lambda>c. f c = f x) xs = [x]"
proof (induction xs)
  case Nil
  then show ?case by simp
next
  case (Cons y ys)
  show ?case
  proof (cases "x = y")
    case True
    have "f y \<notin> f ` set ys" using Cons.prems(1) by simp
    then have "\<And>c. c \<in> set ys \<Longrightarrow> f c \<noteq> f y" by (metis imageI)
    then have "filter (\<lambda>c. f c = f y) ys = []"
      by (simp add: filter_empty_conv)
    then show ?thesis using True by simp
  next
    case False
    then have "x \<in> set ys" using Cons.prems(2) by simp
    moreover from this have "f y \<noteq> f x" using Cons.prems(1) by auto
    ultimately show ?thesis using Cons.IH Cons.prems(1) by simp
  qed
qed

lemma getitem_distinct:
  "distinct (column_names df) \<Longrightarrow> c \<in> set (columns df) \<Longrightarrow> getitem df (col_name c) = [c]"
  unfolding getitem_def column_names_def by (rule filter_distinct_label)

lemma masked_outside:
  "(cell_lt x (Fl lo) \<or> cell_gt x (Fl hi)) = outside lo hi x"
  by (cases x) (auto simp add: outside_def)

lemma quantile_NaN: "quantile cs q = NaN \<longleftrightarrow> num_values cs = []"
proof -
  have "sort (num_values cs) = [] \<longleftrightarrow> num_values cs = []"
    by (metis length_0_conv length_sort)
  then show ?thesis by (simp add: quantile_def Let_def)
qed

lemma length_iqr_outliers: "length (iqr_outliers cs) = outlier_rows cs"
proof (cases "num_values cs = []")
  case True
  then have "quantile cs (1/4) = NaN" "quantile cs (3/4) = NaN"
    by (simp_all add: quantile_NaN)
  then show ?thesis by (simp add: iqr_outliers_def iqr_bounds_def outlier_rows_def)
next
  case False
  then obtain q1 q3 where q: "quantile cs (1/4) = Fl q1" "quantile cs (3/4) = Fl q3"
    by (meson pyfloat.exhaust quantile_NaN)
  then show ?thesis
    by (simp add: iqr_outliers_def iqr_bounds_def outlier_rows_def masked_outside)
qed

lemma consistency_scores_rows:
  "0 < nrows df \<Longrightarrow> distinct (column_names df) \<Longrightarrow> set cs \<subseteq> set (columns df) \<Longrightarrow>
   consistency_scores df (map col_name cs) acc =
     Inr (acc @ map (\<lambda>c. 1 - real (outlier_rows (cells c)) / real (nrows df))
                  (filter is_numeric cs))"
proof (induction cs arbitrary: acc)
  case Nil
  then show ?case by simp
next
  case (Cons c cs)
  have g: "getitem df (col_name c) = [c]" using Cons.prems by (simp add: getitem_distinct)
  have o: "length (filter (\<lambda>x. cell_lt x (fsub (quantile (cells c) (1/4))
                (fmul (Fl (3/2)) (fsub (quantile (cells c) (3/4)) (quantile (cells c) (1/4)))))
              \<or> cell_gt x (fadd (quantile (cells c) (3/4))
                (fmul (Fl (3/2)) (fsub (quantile (cells c) (3/4)) (quantile (cells c) (1/4))))))
             (cells c)) = outlier_rows (cells c)"
    using length_iqr_outliers [of "cells c"] by (simp add: iqr_outliers_def iqr_bounds_def Let_def)
  show ?case using Cons.prems Cons.IH by (simp add: g o Let_def)
qed

lemma consistency_scores_no_numeric:
  "distinct (column_names df) \<Longrightarrow> set cs \<subseteq> set (columns df) \<Longrightarrow> filter is_numeric cs = [] \<Longrightarrow>
   consistency_scores df (map col_name cs) acc = Inr acc"
proof (induction cs arbitrary: acc)
  case Nil
  then show ?case by simp
next
  case (Cons c cs)
  have g: "getitem df (col_name c) = [c]" using Cons.prems by (simp add: getitem_distinct)
  have n: "\<not> is_numeric c" "filter is_numeric cs = []"
    using Cons.prems(3) by (simp_all split: if_splits)
  show ?case using Cons.prems(1,2) Cons.IH n by (simp add: g)
qed

lemma check_consistency_rows:
  "0 < nrows df \<Longrightarrow> distinct (column_names df) \<Longrightarrow>
   check_consistency df = Inr (Fl (consistency_spec df))"
  using consistency_scores_rows [of df "columns df" "[]"]
  by (simp add: check_consistency_def column_names_def bind_def consistency_spec_def
        np_mean_def Let_def)

lemma check_consistency_no_numeric:
  "filter is_numeric (columns df) = [] \<Longrightarrow> distinct (column_names df) \<Longrightarrow>
   check_consistency df = Inr (Fl 1)"
  using consistency_scores_no_numeric [of df "columns df" "[]"]
  by (simp add: check_consistency_def column_names_def bind_def)

text \<open>
  Claim C8, amended. For the single numeric column \<open>[1, 2, 3, 4, 100]\<close> the consistency
  metric computes Q1 = 2, Q3 = 4, IQR = 2 and the bounds \<open>[-1, 7]\<close>, flags exactly the value
  100 and returns 0.8; a value below the lower bound is flagged as well (the column
  \<open>[-100, 1, 2, 3, 4]\<close> scores 0.8, and 0.9 together with a column without outliers). For
  every table with at least one row and pairwise distinct column labels the metric is the
  unweighted mean, over the numeric columns, of \<open>1 - outliers / rowcount\<close>, where a row is
  an outlier when its value is a number outside the bounds. For every table with distinct
  labels and no numeric column it is 1.0.
\<close>

theorem check_consistency_iqr:
  "quantile [Number 1, Number 2, Number 3, Number 4, Number 100] 0.25 = Fl 2
   \<and> quantile [Number 1, Number 2, Number 3, Number 4, Number 100] 0.75 = Fl 4
   \<and> fsub (Fl 4) (Fl 2) = Fl 2
   \<and> iqr_bounds [Number 1, Number 2, Number 3, Number 4, Number 100] = (Fl (- 1), Fl 7)
   \<and> iqr_outliers [Number 1, Number 2, Number 3, Number 4, Number 100] = [Number 100]
   \<and> check_consistency \<lparr>nrows = 5, columns = [\<lparr>col_name = name, dtype = ''int64'',
        cells = [Number 1, Number 2, Number 3, Number 4, Number 100]\<rparr>]\<rparr> = Inr (Fl 0.8)
   \<and> iqr_outliers [Number (- 100), Number 1, Number 2, Number 3, Number 4]
        = [Number (- 100)]
   \<and> check_consistency \<lparr>nrows = 5, columns =
        [\<lparr>col_name = ''a'', dtype = ''int64'',
            cells = [Number (- 100), Number 1, Number 2, Number 3, Number 4]\<rparr>,
         \<lparr>col_name = ''b'', dtype = ''float64'',
            cells = [Number 1, Number 2, Number 3, Missing, Number 5]\<rparr>,
         \<lparr>col_name = ''c'', dtype = ''object'',
            cells = [Text ''u'', Text ''v'', Text ''w'', Text ''x'', Text ''y'']\<rparr>]\<rparr>
        = Inr (Fl 0.9)
   \<and> (0 < nrows df \<and> distinct (column_names df)
        \<longrightarrow> check_consistency df = Inr (Fl (consistency_spec df)))
   \<and> (filter is_numeric (columns df') = [] \<and> distinct (column_names df')
        \<longrightarrow> check_consistency df' = Inr (Fl 1.0))"
proof -
  have low: "iqr_outliers [Number (- 100), Number 1, Number 2, Number 3, Number 4]
      = [Number (- 100)]"
    by (simp add: iqr_outliers_def iqr_bounds_def quantile_low_q1 quantile_low_q3)
  show ?thesis
    using quantile_example_q1 quantile_example_q3 iqr_bounds_example iqr_outliers_example
      check_consistency_example [of name] check_consistency_low_outlier low
      check_consistency_rows [of df] check_consistency_no_numeric [of df']
    by simp
qed

theorem check_consistency_iqr_witness:
  "0 < nrows \<lparr>nrows = 5, columns =
        [\<lparr>col_name = ''a'', dtype = ''int64'',
            cells = [Number (- 100), Number 1, Number 2, Number 3, Number 4]\<rparr>,
         \<lparr>col_name = ''b'', dtype = ''float64'',
            cells = [Number 1, Number 2, Number 3, Missing, Number 100]\<rparr>,
         \<lparr>col_name = ''c'', dtype = ''object'',
            cells = [Text ''u'', Text ''v'', Text ''w'', Text ''x'', Text ''y'']\<rparr>]\<rparr>
   \<and> distinct (column_names \<lparr>nrows = 5, columns =
        [\<lparr>col_name = ''a'', dtype = ''int64'',
            cells = [Number (- 100), Number 1, Number 2, Number 3, Number 4]\<rparr>,
         \<lparr>col_name = ''b'', dtype = ''float64'',
            cells = [Number 1, Number 2, Number 3, Missing, Number 100]\<rparr>,
         \<lparr>col_name = ''c'', dtype = ''object'',
            cells = [Text ''u'', Text ''v'', Text ''w'', Text ''x'', Text ''y'']\<rparr>]\<rparr>)
   \<and> check_consistency \<lparr>nrows = 5, columns =
        [\<lparr>col_name = ''a'', dtype = ''int64'',
            cells = [Number (- 100), Number 1, Number 2, Number 3, Number 4]\<rparr>,
         \<lparr>col_name = ''b'', dtype = ''float64'',
            cells = [Number 1, Number 2, Number 3, Missing, Number 100]\<rparr>,
         \<lparr>col_name = ''c'', dtype = ''object'',
            cells = [Text ''u'', Text ''v'', Text ''w'', Text ''x'', Text ''y'']\<rparr>]\<rparr>
       = Inr (Fl (4 / 5))
   \<and> filter is_numeric (columns \<lparr>nrows = 2, columns =
        [\<lparr>col_name = ''c'', dtype = ''object'', cells = [Text ''u'', Missing]\<rparr>]\<rparr>) = []
   \<and> distinct (column_names \<lparr>nrows = 2, columns =
        [\<lparr>col_name = ''c'', dtype = ''object'', cells = [Text ''u'', Missing]\<rparr>]\<rparr>)
   \<and> check_consistency \<lparr>nrows = 2, columns =
        [\<lparr>col_name = ''c'', dtype = ''object'', cells = [Text ''u'', Missing]\<rparr>]\<rparr>
       = Inr (Fl 1)"
  using check_consistency_iqr [of "''x''"
      "\<lparr>nrows = 5, columns =
        [\<lparr>col_name = ''a'', dtype = ''int64'',
            cells = [Number (- 100), Number 1, Number 2, Number 3, Number 4]\<rparr>,
         \<lparr>col_name = ''b'', dtype = ''float64'',
            cells = [Number 1, Number 2, Number 3, Missing, Number 100]\<rparr>,
         \<lparr>col_name = ''c'', dtype = ''object'',
            cells = [Text ''u'', Text ''v'', Text ''w'', Text ''x'', Text ''y'']\<rparr>]\<rparr>"
      "\<lparr>nrows = 2, columns =
        [\<lparr>col_name = ''c'', dtype = ''object'', cells = [Text ''u'', Missing]\<rparr>]\<rparr>"]
  by (simp add: consistency_spec_def outlier_rows_def outside_def is_numeric_def
        column_names_def quantile_def Let_def)

text \<open>
  Claim C8 as stated fails on a table without rows that has a numeric column, where the
  division raises, and on a table in which a label repeats, where the lookup of
  \<^verbatim>\<open>dtype\<close> raises.
\<close>

theorem check_consistency_counterexample:
  "check_consistency \<lparr>nrows = 0, columns = [\<lparr>col_name = ''a'', dtype = ''int64'',
      cells = []\<rparr>]\<rparr> = Inl (Raise ZeroDivisionError ''division by zero'')
   \<and> check_consistency \<lparr>nrows = 1, columns =
      [\<lparr>col_name = ''a'', dtype = ''int64'', cells = [Number 1]\<rparr>,
       \<lparr>col_name = ''a'', dtype = ''int64'', cells = [Number 2]\<rparr>]\<rparr>
     = Inl (Raise AttributeError
              (repr_str ''DataFrame'' @ '' object has no attribute '' @ repr_str ''dtype''))"
  using check_consistency_no_rows check_consistency_repeated_label by simp

subsection \<open>The missing dataset loader\<close>

text \<open>
  Claim C6. \<^verbatim>\<open>evaluate_quality\<close> raises for every input: the lookup of the undefined
  method \<^verbatim>\<open>_load_dataset\<close> raises AttributeError, which the catch-all handler raises
  again as one ValueError carrying its message.
\<close>

theorem evaluate_quality_always_raises:
  "evaluate_quality self e file_path metadata =
     Inl (Raise ValueError (''Error evaluating dataset quality: ''
        @ repr_str ''QualityChecker'' @ '' object has no attribute ''
        @ repr_str ''_load_dataset''))"
  by (simp add: evaluate_quality_def evaluate_quality_with_def bind_def)

subsection \<open>Recommendations\<close>

lemma generate_recommendations_loop_spec:
  "generate_recommendations_loop self scores acc = acc @ recommendations_spec self scores"
  by (induction scores arbitrary: acc)
     (auto simp: recommendations_spec_def advised_def split: option.splits)

lemma advisory_inj: "advisory m = Some t \<Longrightarrow> advisory m' = Some t \<Longrightarrow> m = m'"
  by (auto simp: advisory_def split: if_splits)

lemma recommendations_spec_set:
  "t \<in> set (recommendations_spec self scores) \<longleftrightarrow>
     (\<exists>m s. (m, s) \<in> set scores \<and> fless s (Fl (threshold self m)) \<and> advisory m = Some t)"
proof (induction scores)
  case Nil
  show ?case by (simp add: recommendations_spec_def)
next
  case (Cons p scores)
  have "t \<in> set (recommendations_spec self (p # scores)) \<longleftrightarrow>
        advised self p = Some t \<or> t \<in> set (recommendations_spec self scores)"
    by (cases "advised self p") (auto simp: recommendations_spec_def)
  moreover have "advised self p = Some t \<longleftrightarrow>
      fless (snd p) (Fl (threshold self (fst p))) \<and> advisory (fst p) = Some t"
    by (simp add: advised_def)
  ultimately show ?case
    unfolding Cons.IH by (cases p) auto
qed

lemma recommendations_spec_distinct:
  "distinct (map fst scores) \<Longrightarrow> distinct (recommendations_spec self scores)"
proof (induction scores)
  case Nil
  then show ?case by (simp add: recommendations_spec_def)
next
  case (Cons p scores)
  have tl: "distinct (recommendations_spec self scores)"
    using Cons by simp
  have fresh: "t \<notin> set (recommendations_spec self scores)" if a: "advised self p = Some t" for t
  proof
    assume "t \<in> set (recommendations_spec self scores)"
    then obtain m' s' where ms: "(m', s') \<in> set scores" "advisory m' = Some t"
      unfolding recommendations_spec_set by blast
    from a have "advisory (fst p) = Some t" by (simp add: advised_def split: if_splits)
    from this ms(2) have "fst p = m'" by (rule advisory_inj)
    moreover have "fst (m', s') \<in> fst ` set scores" using ms(1) by (rule imageI)
    ultimately have "fst p \<in> fst ` set scores" by simp
    with Cons.prems show False by simp
  qed
  have unfold: "recommendations_spec self (p # scores) =
     (case advised self p of None \<Rightarrow> recommendations_spec self scores
        | Some t \<Rightarrow> t # recommendations_spec self scores)"
    unfolding recommendations_spec_def by simp
  show ?case
  proof (cases "advised self p")
    case None
    then show ?thesis using tl unfold by simp
  next
    case (Some t)
    then show ?thesis using tl unfold fresh by simp
  qed
qed

lemma score_dataset_metrics:
  "score_dataset self e df metadata = Inr r \<Longrightarrow>
     map fst (detailed_scores r) = metric_order
     \<and> recommendations r = generate_recommendations self (detailed_scores r)"
  by (auto simp: score_dataset_def bind_def metric_order_def Let_def split: sum.splits)

lemma thresholds_init:
  "threshold QualityChecker_init ''completeness'' = 0.9"
  "threshold QualityChecker_init ''consistency'' = 0.95"
  "threshold QualityChecker_init ''accuracy'' = 0.95"
  "threshold QualityChecker_init ''format_validity'' = 0.9"
  "threshold QualityChecker_init ''schema_compliance'' = 0.9"
  by (simp_all add: threshold_def QualityChecker_init_def)

text \<open>
  Claim C7, amended. An advisory is appended for a metric exactly when its score is below
  the metric's threshold, which is the metric's entry in \<^verbatim>\<open>quality_thresholds\<close> (0.9 for
  completeness, 0.95 for consistency and for accuracy) and 0.9 for a metric without an entry
  (format\_validity, schema\_compliance). The advisories follow the order of the metrics in
  the scores, which for a report is the declaration order, and no advisory is duplicated.
\<close>

theorem generate_recommendations_thresholds:
  "distinct (map fst scores) \<Longrightarrow>
     generate_recommendations self scores = recommendations_spec self scores
     \<and> (\<forall>t. t \<in> set (generate_recommendations self scores) \<longleftrightarrow>
           (\<exists>m s. (m, s) \<in> set scores \<and> fless s (Fl (threshold self m))
              \<and> advisory m = Some t))
     \<and> distinct (generate_recommendations self scores)
     \<and> (score_dataset self e df metadata = Inr r \<longrightarrow>
           map fst (detailed_scores r) = metric_order
           \<and> recommendations r = generate_recommendations self (detailed_scores r))
     \<and> threshold QualityChecker_init ''completeness'' = 0.9
     \<and> threshold QualityChecker_init ''consistency'' = 0.95
     \<and> threshold QualityChecker_init ''accuracy'' = 0.95
     \<and> threshold QualityChecker_init ''format_validity'' = 0.9
     \<and> threshold QualityChecker_init ''schema_compliance'' = 0.9"
proof -
  assume d: "distinct (map fst scores)"
  have eq: "generate_recommendations self scores = recommendations_spec self scores"
    by (simp add: generate_recommendations_def generate_recommendations_loop_spec)
  show ?thesis
    unfolding eq
    using recommendations_spec_set [of _ self scores] recommendations_spec_distinct [OF d, of self]
      score_dataset_metrics [of self e df metadata r] thresholds_init
    by blast
qed

theorem generate_recommendations_thresholds_witness:
  "distinct (map fst [(''completeness'', Fl 0.5), (''consistency'', Fl 0.92),
      (''accuracy'', Fl 0.96), (''timeliness'', Fl 0.5), (''format_validity'', NaN),
      (''schema_compliance'', Fl 0.5)])
   \<and> generate_recommendations QualityChecker_init
       [(''completeness'', Fl 0.5), (''consistency'', Fl 0.92),
        (''accuracy'', Fl 0.96), (''timeliness'', Fl 0.5), (''format_validity'', NaN),
        (''schema_compliance'', Fl 0.5)]
     = recommendations_spec QualityChecker_init
       [(''completeness'', Fl 0.5), (''consistency'', Fl 0.92),
        (''accuracy'', Fl 0.96), (''timeliness'', Fl 0.5), (''format_validity'', NaN),
        (''schema_compliance'', Fl 0.5)]
   \<and> recommendations_spec QualityChecker_init
       [(''completeness'', Fl 0.5), (''consistency'', Fl 0.92),
        (''accuracy'', Fl 0.96), (''timeliness'', Fl 0.5), (''format_validity'', NaN),
        (''schema_compliance'', Fl 0.5)]
     = [''Consider handling missing values or collecting more complete data'',
        ''Review and handle outliers in the dataset'',
        ''Update the dataset with more recent data'',
        ''Ensure data follows the expected schema'']"
  using generate_recommendations_thresholds [of
      "[(''completeness'', Fl 0.5), (''consistency'', Fl 0.92),
        (''accuracy'', Fl 0.96), (''timeliness'', Fl 0.5), (''format_validity'', NaN),
        (''schema_compliance'', Fl 0.5)]" QualityChecker_init]
  by (simp add: recommendations_spec_def advised_def threshold_def QualityChecker_init_def
        advisory_def)

text \<open>
  The claim as stated fails: with a consistency score of 0.92, which is not below 0.9, the
  consistency advisory is appended.
\<close>

theorem generate_recommendations_counterexample:
  "generate_recommendations QualityChecker_init
     [(''completeness'', Fl 1), (''consistency'', Fl 0.92), (''accuracy'', Fl 1),
      (''timeliness'', Fl 1), (''format_validity'', Fl 1), (''schema_compliance'', Fl 1)]
   = [''Review and handle outliers in the dataset'',
      ''Update the dataset with more recent data'']
   \<and> \<not> (0.92 < (0.9 :: real))"
  by (simp add: generate_recommendations_def threshold_def QualityChecker_init_def advisory_def)

subsection \<open>The overall score\<close>

lemma weights_sum: "sum_list (map snd weights) = 1"
  by (simp add: weights_def)

lemma score_dataset_overall:
  "score_dataset self e df metadata = Inr r \<Longrightarrow>
     \<exists>s1 s2 s3 s4 s5 s6.
       detailed_scores r =
         [(''completeness'', s1), (''consistency'', s2), (''accuracy'', s3),
          (''timeliness'', s4), (''format_validity'', s5), (''schema_compliance'', s6)]
       \<and> overall_score r =
           fadd (fadd (fadd (fadd (fadd (fadd (Fl 0) (fmul s1 (Fl 0.3))) (fmul s2 (Fl 0.2)))
             (fmul s3 (Fl 0.2))) (fmul s4 (Fl 0.1))) (fmul s5 (Fl 0.1))) (fmul s6 (Fl 0.1))"
  by (auto simp: score_dataset_def bind_def Let_def weights_def split: sum.splits)

text \<open>
  The scoring body does not keep the overall score below 1. It is reached only when a
  loader is supplied in place of the method that the class lacks. Here the table has one
  text column with one row, the declared schema is met, and \<^verbatim>\<open>last_updated\<close> is one day
  after the current time (the clock reads 0, the timestamp parses to 86400000000
  microseconds): the timeliness score is 31/30 and the overall score 301/300.
\<close>

lemma score_with_loader_overall_above_one:
  "sum_list (map snd weights) = 1
   \<and> evaluate_quality_with (Some (\<lambda>file_path. Inr
        \<lparr>nrows = 1, columns = [\<lparr>col_name = ''name'', dtype = ''object'',
           cells = [Text ''a'']\<rparr>]\<rparr>))
       QualityChecker_init
       \<lparr>now = 0, fromisoformat = (\<lambda>s. Inr (Naive 86400000000))\<rparr>
       ''data.csv''
       [(''last_updated'', PStr ''2026-11-05T00:00:00''),
        (''schema'', PDict [(''name'', PStr ''object'')])]
     = Inr \<lparr>overall_score = Fl (301 / 300),
            detailed_scores =
              [(''completeness'', Fl 1), (''consistency'', Fl 1), (''accuracy'', Fl 1),
               (''timeliness'', Fl (31 / 30)), (''format_validity'', Fl 1),
               (''schema_compliance'', Fl 1)],
            recommendations = [''Update the dataset with more recent data'']\<rparr>
   \<and> \<not> (301 / 300 \<le> (1 :: real))"
  by (simp add: weights_def evaluate_quality_with_def bind_def score_dataset_def
        check_consistency_def check_accuracy_def check_timeliness_def check_completeness_def
        check_format_validity_def check_schema_compliance_def days_between_def
        is_numeric_def QualityChecker_init_def generate_recommendations_def threshold_def
        advisory_def Let_def column_names_def getitem_def selected_numeric_def)

section \<open>Properties of the validator\<close>

lemma validate_dataset_str_format_returns:
  "dict_get metadata ''format'' (PStr []) = PStr s \<Longrightarrow>
     \<exists>b. validate_dataset self pd file_path metadata = Inr b"
  by (auto simp: validate_dataset_def Let_def split: sum.splits)

lemma validate_dataset_unsupported_format:
  "dict_get metadata ''format'' (PStr []) = PStr s \<Longrightarrow>
   lower s \<notin> set (supported_formats self) \<Longrightarrow>
     validate_dataset self pd file_path metadata = Inr False"
  by (simp add: validate_dataset_def)

lemma validate_dataset_loader_exception:
  "dict_get metadata ''format'' (PStr []) = PStr ''csv'' \<Longrightarrow>
   read_csv pd file_path = Inl ex \<Longrightarrow>
     validate_dataset DataValidator_init pd file_path metadata = Inr False"
  by (simp add: validate_dataset_def validate_body_def bind_def DataValidator_init_def
        lower_def lower_char_def)

lemma validate_body_empty:
  "(if file_format = ''csv'' then read_csv pd file_path
    else if file_format = ''json'' then read_json pd file_path
    else if file_format = ''parquet'' then read_parquet pd file_path
    else Inl ex) = Inr df \<Longrightarrow> df_empty df \<Longrightarrow>
   validate_body pd file_format file_path metadata = Inr False"
  by (auto simp: validate_body_def bind_def split: if_splits)

lemma all_in_columns_absent:
  "PStr k \<in> set cols \<Longrightarrow> k \<notin> set (column_names df) \<Longrightarrow>
     all_in_columns df cols \<noteq> Inr True"
  by (induction cols) (auto simp: bind_def split: sum.splits)

lemma validate_dataset_required_absent:
  assumes fmt: "dict_get metadata ''format'' (PStr []) = PStr s"
    and req: "dict_get metadata ''required_columns'' (PList []) = PList cols"
    and absent: "PStr k \<in> set cols" "k \<notin> set (column_names df)"
    and load: "read_csv pd file_path = Inr df" "read_json pd file_path = Inr df"
      "read_parquet pd file_path = Inr df"
  shows "validate_dataset self pd file_path metadata = Inr False"
proof -
  have "all_in_columns df cols \<noteq> Inr True"
    using absent by (rule all_in_columns_absent)
  then have "validate_body pd (lower s) file_path metadata \<noteq> Inr True"
    using req load
    by (auto simp: validate_body_def bind_def split: sum.splits if_splits)
  then show ?thesis
    using fmt by (auto simp: validate_dataset_def Let_def split: sum.splits)
qed

lemma validate_dataset_scenario:
  "read_csv pd file_path = Inr \<lparr>nrows = Suc n, columns = [\<lparr>col_name = ''id'', dtype = t,
      cells = cs\<rparr>]\<rparr> \<Longrightarrow>
   validate_dataset DataValidator_init pd file_path
     [(''format'', PStr ''csv''), (''required_columns'', PList [PStr ''id'', PStr ''value''])]
     = Inr False"
  by (simp add: validate_dataset_def validate_body_def bind_def DataValidator_init_def
        lower_def lower_char_def dict_get_def df_empty_def column_names_def)

lemma check_column_types_absent:
  "col \<notin> set (column_names df) \<Longrightarrow>
     check_column_types df ((col, t) # rest) = check_column_types df rest"
  by simp

lemma check_column_types_filter:
  "check_column_types df column_types =
     check_column_types df (filter (\<lambda>ct. fst ct \<in> set (column_names df)) column_types)"
  by (induction df column_types rule: check_column_types.induct) (simp_all add: bind_def split: sum.splits)

lemma validate_dataset_absent_type_constraint:
  "read_csv pd file_path = Inr \<lparr>nrows = Suc n, columns = [\<lparr>col_name = ''id'', dtype = ''int64'',
      cells = cs\<rparr>]\<rparr> \<Longrightarrow>
   validate_dataset DataValidator_init pd file_path
     [(''format'', PStr ''csv''), (''required_columns'', PList [PStr ''id'']),
      (''column_types'', PDict [(''id'', PStr ''int64''), (''value'', PStr ''float64'')])]
     = Inr True"
  by (simp add: validate_dataset_def validate_body_def bind_def DataValidator_init_def
        lower_def lower_char_def dict_get_def df_empty_def column_names_def dict_items_def
        column_dtype_def)

text \<open>
  Claim C10 at a failing input. The declared format is read and lowered before the
  \<^verbatim>\<open>try\<close> block, so metadata whose \<^verbatim>\<open>format\<close> is not a string (here JSON null)
  makes \<^verbatim>\<open>validate_dataset\<close> raise AttributeError instead of returning false, whatever
  the file and the readers are.
\<close>

theorem validate_dataset_format_not_str_raises:
  "validate_dataset DataValidator_init pd file_path [(''format'', PNone)] =
     Inl (Raise AttributeError
       (repr_str ''NoneType'' @ '' object has no attribute '' @ repr_str ''lower''))"
  by (simp add: validate_dataset_def dict_get_def no_attribute_def)

section \<open>Properties of the cryptographic primitives\<close>

subsection \<open>Lengths\<close>

lemma length_be_bytes [simp]: "length (be_bytes len v) = len"
  by (simp add: be_bytes_def)

lemma length_sha256_round:
  "length st = 8 \<Longrightarrow> length (sha256_round st kw) = 8"
proof -
  assume "length st = 8"
  then obtain a b c d e f g h where "st = [a, b, c, d, e, f, g, h]"
    by (auto simp: length_Suc_conv eval_nat_numeral)
  then show ?thesis by (cases kw) (simp add: Let_def)
qed

lemma length_foldl_sha256_round:
  "length st = 8 \<Longrightarrow> length (foldl sha256_round st kws) = 8"
  by (induction kws arbitrary: st) (simp_all add: length_sha256_round)

lemma length_sha256_compress:
  "length H = 8 \<Longrightarrow> length (sha256_compress H block) = 8"
  by (simp add: sha256_compress_def Let_def length_foldl_sha256_round)

lemma length_foldl_sha256_compress:
  "length H = 8 \<Longrightarrow> length (foldl sha256_compress H blocks) = 8"
  by (induction blocks arbitrary: H) (simp_all add: length_sha256_compress)

lemma length_concat_bytes_of_word:
  "length (concat (map bytes_of_word ws)) = 4 * length ws"
  by (induction ws) (simp_all add: bytes_of_word_def)

lemma length_sha256 [simp]: "length (sha256 m) = 32"
  by (simp add: sha256_def length_concat_bytes_of_word length_foldl_sha256_compress
        sha256_H0_def)

lemma length_hmac_sha256 [simp]: "length (hmac_sha256 key msg) = 32"
  by (simp add: hmac_sha256_def Let_def)

lemma length_pbkdf2_loop:
  "length u = 32 \<Longrightarrow> length t = 32 \<Longrightarrow> length (pbkdf2_loop P n u t) = 32"
  by (induction n arbitrary: u t) (simp_all add: Let_def)

lemma length_pbkdf2_block [simp]: "length (pbkdf2_block P S c i) = 32"
  by (simp add: pbkdf2_block_def Let_def length_pbkdf2_loop)

lemma length_pbkdf2_32 [simp]: "length (pbkdf2_hmac_sha256 P S c 32) = 32"
  by (simp add: pbkdf2_hmac_sha256_def)

subsection \<open>HMAC pads its key with zero bytes\<close>

lemma hmac_sha256_key_zero:
  "length key < 64 \<Longrightarrow> hmac_sha256 (key @ [0]) msg = hmac_sha256 key msg"
proof -
  assume l: "length key < 64"
  then have "replicate (64 - length key) (0::byte) = 0 # replicate (64 - length (key @ [0])) 0"
    by (cases "64 - length key") simp_all
  then have pad: "(key @ [0]) @ replicate (64 - length (key @ [0])) 0
       = key @ replicate (64 - length key) 0"
    by simp
  have "hmac_sha256 (key @ [0]) msg =
      (let k = (key @ [0]) @ replicate (64 - length (key @ [0])) 0
       in sha256 (map (\<lambda>b. b XOR 0x5c) k @ sha256 (map (\<lambda>b. b XOR 0x36) k @ msg)))"
    using l by (simp add: hmac_sha256_def Let_def)
  also have "\<dots> = hmac_sha256 key msg"
    unfolding pad using l by (simp add: hmac_sha256_def Let_def)
  finally show ?thesis .
qed

lemma pbkdf2_loop_cong:
  "(\<And>m. hmac_sha256 P m = hmac_sha256 P' m) \<Longrightarrow> pbkdf2_loop P n u t = pbkdf2_loop P' n u t"
  by (induction n arbitrary: u t) (simp_all add: Let_def)

lemma pbkdf2_key_zero:
  "length P < 64 \<Longrightarrow> pbkdf2_hmac_sha256 (P @ [0]) S c dklen = pbkdf2_hmac_sha256 P S c dklen"
proof -
  assume l: "length P < 64"
  have h: "hmac_sha256 (P @ [0]) m = hmac_sha256 P m" for m
    using l by (rule hmac_sha256_key_zero)
  have "pbkdf2_block (P @ [0]) S c i = pbkdf2_block P S c i" for i
    by (simp add: pbkdf2_block_def h pbkdf2_loop_cong [of "P @ [0]" P, OF h])
  then have "pbkdf2_block (P @ [0]) S c = pbkdf2_block P S c"
    by (rule ext)
  then show ?thesis unfolding pbkdf2_hmac_sha256_def by simp
qed

subsection \<open>Base64\<close>

lemma unat_byte_lt: "unat (b::byte) < 256"
  using unsigned_less [of b, where ?'a = nat] by simp

lemma unat_byte_of_nat: "n < 256 \<Longrightarrow> unat (of_nat n :: byte) = n"
  by (simp add: unat_of_nat)

lemma unat_b64_char: "n < 64 \<Longrightarrow> unat (b64_char n) = b64_code n"
proof -
  assume "n < 64"
  then have "b64_code n < 256" by (auto simp: b64_code_def)
  then show ?thesis by (simp only: b64_char_def unat_byte_of_nat)
qed

lemma b64_value_char: "n < 64 \<Longrightarrow> b64_value (b64_char n) = Some n"
  by (auto simp: b64_value_def unat_b64_char b64_code_def Let_def)

lemma b64_char_not_pad: "n < 64 \<Longrightarrow> b64_char n \<noteq> b64_pad"
proof
  assume n: "n < 64" and "b64_char n = b64_pad"
  then have "unat (b64_char n) = 61" by (simp add: b64_pad_def)
  with n show False
    by (auto simp: unat_b64_char b64_code_def split: if_splits)
qed

lemma a2b_base64_char:
  "n < 64 \<Longrightarrow>
   a2b_base64 q l p out (b64_char n # cs) =
     (if q = 0 then a2b_base64 1 n 0 out cs
      else if q = 1 then a2b_base64 2 (n mod 16) 0 (out @ [of_nat (l * 4 + n div 16)]) cs
      else if q = 2 then a2b_base64 3 (n mod 4) 0 (out @ [of_nat (l * 16 + n div 4)]) cs
      else a2b_base64 0 0 0 (out @ [of_nat (l * 64 + n)]) cs)"
  by (simp add: b64_value_char b64_char_not_pad)

lemma a2b_base64_pad:
  "a2b_base64 q l p out (b64_pad # cs) =
     (if q \<ge> 2 \<and> q + (p + 1) \<ge> 4 then Inr out
      else a2b_base64 q l (if q \<ge> 2 then p + 1 else p) out cs)"
  by simp

lemma byte_split4:
  "of_nat (unat a div 4 * 4 + (unat a mod 4 * 16 + unat (b::byte) div 16) div 16) = (a::byte)"
proof -
  have "unat b div 16 < 16" using unat_byte_lt [of b] by arith
  then have "(unat a mod 4 * 16 + unat b div 16) div 16 = unat a mod 4" by simp
  then show ?thesis by simp
qed

lemma byte_split16:
  "of_nat ((unat (a::byte) mod 4 * 16 + unat b div 16) mod 16 * 16
     + (unat b mod 16 * 4 + unat (c::byte) div 64) div 4) = (b::byte)"
proof -
  have "unat b div 16 < 16" using unat_byte_lt [of b] by arith
  moreover have "unat c div 64 < 4" using unat_byte_lt [of c] by arith
  ultimately have "(unat a mod 4 * 16 + unat b div 16) mod 16 = unat b div 16"
    "(unat b mod 16 * 4 + unat c div 64) div 4 = unat b mod 16" by simp_all
  then show ?thesis by simp
qed

lemma byte_split64:
  "of_nat ((unat (b::byte) mod 16 * 4 + unat c div 64) mod 4 * 64 + unat c mod 64) = (c::byte)"
proof -
  have "unat c div 64 < 4" using unat_byte_lt [of c] by arith
  then have "(unat b mod 16 * 4 + unat c div 64) mod 4 = unat c div 64" by simp
  then show ?thesis by simp
qed

lemma byte_split4_last: "of_nat (unat a div 4 * 4 + (unat a mod 4 * 16) div 16) = (a::byte)"
  using byte_split4 [of a 0] by simp

lemma byte_split16_last:
  "of_nat ((unat (a::byte) mod 4 * 16 + unat b div 16) mod 16 * 16
     + (unat b mod 16 * 4) div 4) = (b::byte)"
  using byte_split16 [of a b 0] by simp

lemma sextet_bounds:
  "unat (a::byte) div 4 < 64" "unat (a::byte) mod 4 * 16 + unat (b::byte) div 16 < 64"
  "unat (b::byte) mod 16 * 4 + unat (c::byte) div 64 < 64" "unat (c::byte) mod 64 < 64"
  "unat (a::byte) mod 4 * 16 < 64" "unat (b::byte) mod 16 * 4 < 64"
  using unat_byte_lt [of a] unat_byte_lt [of b] unat_byte_lt [of c]
  by arith+

lemma a2b_base64_encode:
  "a2b_base64 0 0 0 out (urlsafe_b64encode m) = Inr (out @ m)"
proof (induction m arbitrary: out rule: urlsafe_b64encode.induct)
  case (1 a b c rest)
  have "a2b_base64 0 0 0 out (urlsafe_b64encode (a # b # c # rest)) =
        a2b_base64 0 0 0 (out @ [a, b, c]) (urlsafe_b64encode rest)"
    by (simp only: urlsafe_b64encode.simps append_Cons append_Nil a2b_base64_char sextet_bounds
          byte_split4 byte_split16 byte_split64 if_True if_False refl
          One_nat_def [symmetric] numeral_eq_iff semiring_norm zero_neq_one zero_neq_numeral
          one_eq_numeral_iff numeral_eq_one_iff append_assoc)
  then show ?case using "1.IH" [of "out @ [a, b, c]"] by simp
next
  case (2 a b)
  show ?case
    apply (simp only: urlsafe_b64encode.simps append_Cons append_Nil a2b_base64_char sextet_bounds
          byte_split4 byte_split16 byte_split64 byte_split4_last byte_split16_last
          if_True if_False refl
          One_nat_def [symmetric] numeral_eq_iff semiring_norm zero_neq_one zero_neq_numeral
          one_eq_numeral_iff numeral_eq_one_iff append_assoc)
    apply simp
    done
next
  case (3 a)
  show ?case
    apply (simp only: urlsafe_b64encode.simps append_Cons append_Nil a2b_base64_char sextet_bounds
          byte_split4 byte_split16 byte_split64 byte_split4_last byte_split16_last
          if_True if_False refl
          One_nat_def [symmetric] numeral_eq_iff semiring_norm zero_neq_one zero_neq_numeral
          one_eq_numeral_iff numeral_eq_one_iff append_assoc)
    apply simp
    done
next
  case 4
  show ?case by simp
qed

lemma urlsafe_b64decode_encode [simp]: "urlsafe_b64decode (urlsafe_b64encode m) = Inr m"
  by (simp add: urlsafe_b64decode_def a2b_base64_encode)

lemma length_urlsafe_b64encode:
  "length (urlsafe_b64encode m) = 4 * ((length m + 2) div 3)"
  by (induction m rule: urlsafe_b64encode.induct) (simp_all, presburger)

subsection \<open>AES-128 is invertible\<close>

lemma sbox_table_inverse:
  "list_all (\<lambda>n. inv_sbox_table ! unat (sbox_table ! n) = (of_nat n :: byte)) [0..<256]"
  by code_simp

lemma inv_sbox_sbox [simp]: "inv_sbox (sbox b) = b"
proof -
  have "unat b \<in> set [0..<256]" using unat_byte_lt [of b] by simp
  then have "inv_sbox_table ! unat (sbox_table ! unat b) = (of_nat (unat b) :: byte)"
    using sbox_table_inverse unfolding list_all_iff by blast
  then show ?thesis by (simp add: inv_sbox_def sbox_def)
qed

lemma inv_sub_bytes_sub_bytes [simp]: "inv_sub_bytes (sub_bytes s) = s"
  by (simp add: inv_sub_bytes_def sub_bytes_def comp_def)

lemma length_sub_bytes [simp]: "length (sub_bytes s) = length s"
  by (simp add: sub_bytes_def)

lemma list16:
  assumes "length s = 16"
  obtains s0 s1 s2 s3 s4 s5 s6 s7 s8 s9 s10 s11 s12 s13 s14 s15
  where "s = [s0, s1, s2, s3, s4, s5, s6, s7, s8, s9, s10, s11, s12, s13, s14, s15]"
  using assms by (auto simp add: eval_nat_numeral length_Suc_conv)


lemma xor_cancel: "(x::byte) XOR (x XOR y) = y"
  by (simp flip: xor.assoc)

lemma xtime_xor: "xtime (a XOR b) = xtime a XOR xtime b"
  by (simp add: xtime_def bit_xor_iff push_bit_xor xor_cancel
        xor.assoc xor.commute xor.left_commute)

lemma inv_mix_column_mix_column:
  "inv_mix_column (mix_column [a, b, c, d]) = [a, b, c, d]"
  by (simp add: mul9_def mul11_def mul13_def mul14_def xtime_xor xor_cancel
        xor.assoc xor.commute xor.left_commute)

lemma mix_column_4: "\<exists>a' b' c' d'. mix_column [a, b, c, d] = [a', b', c', d']"
  by simp

lemma inv_mix_columns_mix_columns:
  assumes "length s = 16"
  shows "inv_mix_columns (mix_columns s) = s"
proof -
  obtain s0 s1 s2 s3 s4 s5 s6 s7 s8 s9 s10 s11 s12 s13 s14 s15
    where s: "s = [s0, s1, s2, s3, s4, s5, s6, s7, s8, s9, s10, s11, s12, s13, s14, s15]"
    using assms by (rule list16)
  obtain a0 a1 a2 a3 where c0: "mix_column [s0, s1, s2, s3] = [a0, a1, a2, a3]"
    using mix_column_4 by blast
  obtain b0 b1 b2 b3 where c1: "mix_column [s4, s5, s6, s7] = [b0, b1, b2, b3]"
    using mix_column_4 by blast
  obtain c0' c1' c2' c3' where c2: "mix_column [s8, s9, s10, s11] = [c0', c1', c2', c3']"
    using mix_column_4 by blast
  obtain d0 d1 d2 d3 where c3: "mix_column [s12, s13, s14, s15] = [d0, d1, d2, d3]"
    using mix_column_4 by blast
  have "inv_mix_columns (mix_columns s) =
        inv_mix_column [a0, a1, a2, a3] @ inv_mix_column [b0, b1, b2, b3]
        @ inv_mix_column [c0', c1', c2', c3'] @ inv_mix_column [d0, d1, d2, d3]"
    unfolding s by (simp only: mix_columns.simps c0 c1 c2 c3 append_Cons append_Nil
        inv_mix_columns.simps)
  also have "\<dots> = s"
    unfolding c0 [symmetric] c1 [symmetric] c2 [symmetric] c3 [symmetric]
      inv_mix_column_mix_column s by simp
  finally show ?thesis .
qed

lemma length_mix_columns:
  assumes "length s = 16"
  shows "length (mix_columns s) = 16"
proof -
  obtain s0 s1 s2 s3 s4 s5 s6 s7 s8 s9 s10 s11 s12 s13 s14 s15
    where s: "s = [s0, s1, s2, s3, s4, s5, s6, s7, s8, s9, s10, s11, s12, s13, s14, s15]"
    using assms by (rule list16)
  show ?thesis unfolding s by simp
qed

lemma inv_shift_rows_shift_rows:
  assumes "length s = 16"
  shows "inv_shift_rows (shift_rows s) = s"
proof -
  obtain s0 s1 s2 s3 s4 s5 s6 s7 s8 s9 s10 s11 s12 s13 s14 s15
    where s: "s = [s0, s1, s2, s3, s4, s5, s6, s7, s8, s9, s10, s11, s12, s13, s14, s15]"
    using assms by (rule list16)
  show ?thesis unfolding s by simp
qed

lemma length_shift_rows:
  assumes "length s = 16"
  shows "length (shift_rows s) = 16"
proof -
  obtain s0 s1 s2 s3 s4 s5 s6 s7 s8 s9 s10 s11 s12 s13 s14 s15
    where s: "s = [s0, s1, s2, s3, s4, s5, s6, s7, s8, s9, s10, s11, s12, s13, s14, s15]"
    using assms by (rule list16)
  show ?thesis unfolding s by simp
qed

lemma length_xor_bytes [simp]: "length (xor_bytes a b) = min (length a) (length b)"
  by (simp add: xor_bytes_def)

lemma xor_bytes_cancel: "length a \<le> length b \<Longrightarrow> xor_bytes (xor_bytes a b) b = a"
proof (induction a arbitrary: b)
  case Nil
  then show ?case by (simp add: xor_bytes_def)
next
  case (Cons x a)
  then obtain y b' where b: "b = y # b'" by (cases b) auto
  have "(x XOR y) XOR y = x" by (simp add: xor.assoc)
  with Cons b show ?case by (simp add: xor_bytes_def)
qed

lemma add_round_key_cancel:
  "length s \<le> length k \<Longrightarrow> add_round_key k (add_round_key k s) = s"
  by (simp add: add_round_key_def xor_bytes_cancel)

lemma length_add_round_key [simp]:
  "length (add_round_key k s) = min (length s) (length k)"
  by (simp add: add_round_key_def)

lemma length_next_round_key: "length k = 16 \<Longrightarrow> length (next_round_key rc k) = 16"
  by (simp add: next_round_key_def Let_def)

lemma key_expansion_lengths:
  "length k = 16 \<Longrightarrow> r \<in> set (key_expansion rcs k) \<Longrightarrow> length r = 16"
proof (induction rcs arbitrary: k)
  case Nil
  then show ?case by simp
next
  case (Cons rc rcs)
  show ?case
  proof (cases "r = k")
    case True
    then show ?thesis using Cons.prems by simp
  next
    case False
    then have "r \<in> set (key_expansion rcs (next_round_key rc k))"
      using Cons.prems by simp
    moreover have "length (next_round_key rc k) = 16"
      using Cons.prems(1) by (rule length_next_round_key)
    ultimately show ?thesis using Cons.IH by blast
  qed
qed

lemma key_expansion_not_Nil [simp]: "key_expansion rcs k \<noteq> []"
  by (cases rcs) simp_all

lemma length_aes_round:
  "length s = 16 \<Longrightarrow> length k = 16 \<Longrightarrow> length (aes_round s k) = 16"
  by (simp add: aes_round_def length_mix_columns length_shift_rows)

lemma aes_inv_round_aes_round:
  "length s = 16 \<Longrightarrow> length k = 16 \<Longrightarrow> aes_inv_round k (aes_round s k) = s"
  by (simp add: aes_round_def aes_inv_round_def add_round_key_cancel length_mix_columns
        length_shift_rows inv_mix_columns_mix_columns inv_shift_rows_shift_rows)

lemma length_foldl_aes_round:
  "length s = 16 \<Longrightarrow> (\<And>k. k \<in> set ks \<Longrightarrow> length k = 16) \<Longrightarrow>
   length (foldl aes_round s ks) = 16"
  by (induction ks arbitrary: s) (simp_all add: length_aes_round)

lemma foldr_aes_inv_round_foldl_aes_round:
  "length s = 16 \<Longrightarrow> (\<And>k. k \<in> set ks \<Longrightarrow> length k = 16) \<Longrightarrow>
   foldr aes_inv_round ks (foldl aes_round s ks) = s"
  by (induction ks arbitrary: s) (simp_all add: length_aes_round aes_inv_round_aes_round)

lemma aes128_decrypt_encrypt_block:
  assumes key: "length key = 16" and block: "length block = 16"
  shows "aes128_decrypt_block key (aes128_encrypt_block key block) = block"
proof -
  define ks where "ks = key_expansion rcon key"
  have len: "\<And>r. r \<in> set ks \<Longrightarrow> length r = 16"
    unfolding ks_def using key by (rule key_expansion_lengths)
  have ne: "ks \<noteq> []" by (simp add: ks_def)
  have hd: "length (hd ks) = 16" using ne len by simp
  have last: "length (last ks) = 16" using ne len by simp
  have mids: "\<And>r. r \<in> set (butlast (tl ks)) \<Longrightarrow> length r = 16"
    using len by (meson in_set_butlastD list.set_sel(2) ne)
  define s0 where "s0 = add_round_key (hd ks) block"
  define s where "s = foldl aes_round s0 (butlast (tl ks))"
  have s0: "length s0 = 16" by (simp add: s0_def hd block)
  have s: "length s = 16" unfolding s_def using s0 mids by (rule length_foldl_aes_round)
  have "aes128_decrypt_block key (aes128_encrypt_block key block) =
        add_round_key (hd ks) (foldr aes_inv_round (butlast (tl ks))
          (inv_sub_bytes (inv_shift_rows (add_round_key (last ks)
             (add_round_key (last ks) (shift_rows (sub_bytes s)))))))"
    by (simp add: aes128_decrypt_block_def aes128_encrypt_block_def Let_def ks_def s_def s0_def)
  also have "\<dots> = add_round_key (hd ks) (foldr aes_inv_round (butlast (tl ks)) s)"
    by (simp add: add_round_key_cancel length_shift_rows s last inv_shift_rows_shift_rows)
  also have "\<dots> = add_round_key (hd ks) s0"
    unfolding s_def using s0 mids by (simp add: foldr_aes_inv_round_foldl_aes_round)
  also have "\<dots> = block" by (simp add: s0_def add_round_key_cancel hd block)
  finally show ?thesis .
qed

lemma length_aes128_encrypt_block:
  assumes key: "length key = 16" and block: "length block = 16"
  shows "length (aes128_encrypt_block key block) = 16"
proof -
  define ks where "ks = key_expansion rcon key"
  have len: "\<And>r. r \<in> set ks \<Longrightarrow> length r = 16"
    unfolding ks_def using key by (rule key_expansion_lengths)
  have ne: "ks \<noteq> []" by (simp add: ks_def)
  have hd: "length (hd ks) = 16" using ne len by simp
  have last: "length (last ks) = 16" using ne len by simp
  have mids: "\<And>r. r \<in> set (butlast (tl ks)) \<Longrightarrow> length r = 16"
    using len by (meson in_set_butlastD list.set_sel(2) ne)
  have "length (foldl aes_round (add_round_key (hd ks) block) (butlast (tl ks))) = 16"
    using mids by (intro length_foldl_aes_round) (simp_all add: hd block)
  then show ?thesis
    by (simp add: aes128_encrypt_block_def Let_def ks_def [symmetric] length_shift_rows last)
qed

subsection \<open>CBC mode and padding\<close>

lemma chunks_Nil [simp]: "chunks n [] = []"
  by (subst chunks.simps) simp

lemma chunks_append_block:
  assumes "length c = n" "0 < n"
  shows "chunks n (c @ rest) = c # chunks n rest"
  using assms by (subst chunks.simps) auto

lemma concat_chunks: "0 < n \<Longrightarrow> concat (chunks n xs) = xs"
proof (induction n xs rule: chunks.induct)
  case (1 n xs)
  show ?case
  proof (cases "xs = []")
    case True
    then show ?thesis by simp
  next
    case False
    then have "chunks n xs = take n xs # chunks n (drop n xs)"
      using "1.prems" by (subst chunks.simps) simp
    moreover have "concat (chunks n (drop n xs)) = drop n xs"
      using "1.IH" "1.prems" False by simp
    ultimately show ?thesis by simp
  qed
qed

lemma chunks_lengths:
  "0 < n \<Longrightarrow> length xs mod n = 0 \<Longrightarrow> c \<in> set (chunks n xs) \<Longrightarrow> length c = n"
proof (induction n xs rule: chunks.induct)
  case (1 n xs)
  show ?case
  proof (cases "xs = []")
    case True
    then show ?thesis using "1.prems" by simp
  next
    case False
    then have ch: "chunks n xs = take n xs # chunks n (drop n xs)"
      using "1.prems" by (subst chunks.simps) simp
    have "n dvd length xs" using "1.prems"(2) by auto
    then have ge: "n \<le> length xs" using False by (simp add: dvd_imp_le)
    have md: "length (drop n xs) mod n = 0"
      using "1.prems"(2) ge by (simp add: le_mod_geq)
    show ?thesis
    proof (cases "c = take n xs")
      case True
      then show ?thesis using ge by simp
    next
      case False
      then have "c \<in> set (chunks n (drop n xs))" using "1.prems"(3) ch by simp
      then show ?thesis using "1.IH" "1.prems"(1) md \<open>xs \<noteq> []\<close> by blast
    qed
  qed
qed

lemma length_cbc_encrypt:
  "length key = 16 \<Longrightarrow> length prev = 16 \<Longrightarrow> (\<And>p. p \<in> set ps \<Longrightarrow> length p = 16) \<Longrightarrow>
   length (cbc_encrypt key prev ps) = 16 * length ps"
proof (induction ps arbitrary: prev)
  case Nil
  then show ?case by simp
next
  case (Cons p ps)
  define c where "c = aes128_encrypt_block key (xor_bytes p prev)"
  have c: "length c = 16"
    unfolding c_def using Cons.prems by (intro length_aes128_encrypt_block) simp_all
  have "length (cbc_encrypt key c ps) = 16 * length ps"
    using Cons.prems c by (intro Cons.IH) simp_all
  then show ?case using c by (simp add: Let_def c_def)
qed

lemma cbc_decrypt_encrypt:
  "length key = 16 \<Longrightarrow> length prev = 16 \<Longrightarrow> (\<And>p. p \<in> set ps \<Longrightarrow> length p = 16) \<Longrightarrow>
   cbc_decrypt key prev (chunks 16 (cbc_encrypt key prev ps)) = concat ps"
proof (induction ps arbitrary: prev)
  case Nil
  then show ?case by simp
next
  case (Cons p ps)
  define c where "c = aes128_encrypt_block key (xor_bytes p prev)"
  have p: "length p = 16" using Cons.prems by simp
  have x: "length (xor_bytes p prev) = 16" using p Cons.prems by simp
  have c: "length c = 16"
    unfolding c_def using Cons.prems(1) x by (rule length_aes128_encrypt_block)
  have d: "aes128_decrypt_block key c = xor_bytes p prev"
    unfolding c_def using Cons.prems(1) x by (rule aes128_decrypt_encrypt_block)
  have ih: "cbc_decrypt key c (chunks 16 (cbc_encrypt key c ps)) = concat ps"
    using Cons.prems c by (intro Cons.IH) simp_all
  have e: "cbc_encrypt key prev (p # ps) = c @ cbc_encrypt key c ps"
    by (simp add: Let_def c_def)
  have "chunks 16 (c @ cbc_encrypt key c ps) = c # chunks 16 (cbc_encrypt key c ps)"
    using c by (intro chunks_append_block) simp_all
  then show ?case
    unfolding e using ih d p Cons.prems(2)
    by (simp add: xor_bytes_cancel del: chunks.simps cbc_encrypt.simps)
qed

lemma pkcs7_pad_length: "length (pkcs7_pad m) mod 16 = 0"
proof -
  have "(length m + (16 - length m mod 16)) mod 16 = 0" by presburger
  then show ?thesis by (simp add: pkcs7_pad_def Let_def)
qed

lemma pkcs7_unpad_pad: "pkcs7_unpad (pkcs7_pad m) = Inr m"
proof -
  define n where "n = 16 - length m mod 16"
  have n: "0 < n" "n \<le> 16" unfolding n_def by simp_all
  have pad: "pkcs7_pad m = m @ replicate n (of_nat n)"
    by (simp add: pkcs7_pad_def n_def Let_def)
  have last: "last (pkcs7_pad m) = of_nat n" using n by (simp add: pad)
  have un: "unat (of_nat n :: byte) = n" using n by (simp add: unat_of_nat)
  show ?thesis
    unfolding pkcs7_unpad_def last un Let_def using n by (simp add: pad)
qed

subsection \<open>Fernet tokens\<close>

lemma bind_Inr [simp]: "bind (Inr x) f = f x"
  by (simp add: bind_def)

lemma bind_Inl [simp]: "bind (Inl e) f = Inl e"
  by (simp add: bind_def)

lemma length_generate_key: "length (generate_key self password) = 44"
  by (simp add: generate_key_def length_urlsafe_b64encode)

lemma Fernet_generate_key:
  "Fernet (generate_key self password) =
     Inr \<lparr>signing_key = take 16 (pbkdf2_hmac_sha256 (encode password) (salt self) 100000 32),
          encryption_key = drop 16 (pbkdf2_hmac_sha256 (encode password) (salt self) 100000 32)\<rparr>"
  by (simp add: Fernet_def generate_key_def)

lemma Fernet_key_lengths:
  "Fernet key = Inr f \<Longrightarrow> length (signing_key f) = 16 \<and> length (encryption_key f) = 16"
  by (auto simp add: Fernet_def split: sum.splits if_splits)

lemma pkcs7_chunks:
  "p \<in> set (chunks 16 (pkcs7_pad data)) \<Longrightarrow> length p = 16"
  using chunks_lengths [of 16 "pkcs7_pad data" p] pkcs7_pad_length [of data] by simp

lemma fernet_decrypt_other_key:
  assumes iv: "length iv = 16" and key: "length (encryption_key f) = 16"
  shows "fernet_decrypt f' (fernet_encrypt f current_time iv data) =
     (if hmac_sha256 (signing_key f')
           ([0x80] @ be_bytes 8 current_time @ iv
            @ cbc_encrypt (encryption_key f) iv (chunks 16 (pkcs7_pad data)))
         \<noteq> hmac_sha256 (signing_key f)
           ([0x80] @ be_bytes 8 current_time @ iv
            @ cbc_encrypt (encryption_key f) iv (chunks 16 (pkcs7_pad data)))
      then Inl invalid_token
      else (case pkcs7_unpad (cbc_decrypt (encryption_key f') iv
                  (chunks 16 (cbc_encrypt (encryption_key f) iv (chunks 16 (pkcs7_pad data))))) of
              Inl e \<Rightarrow> Inl invalid_token
            | Inr plaintext \<Rightarrow> Inr plaintext))"
proof -
  define ct where "ct = cbc_encrypt (encryption_key f) iv (chunks 16 (pkcs7_pad data))"
  define parts where "parts = [0x80] @ be_bytes 8 current_time @ iv @ ct"
  define tag where "tag = hmac_sha256 (signing_key f) parts"
  have ctl: "length ct = 16 * length (chunks 16 (pkcs7_pad data))"
    unfolding ct_def using key iv pkcs7_chunks by (rule length_cbc_encrypt)
  have tok: "fernet_encrypt f current_time iv data = urlsafe_b64encode (parts @ tag)"
    by (simp add: fernet_encrypt_def Let_def parts_def tag_def ct_def)
  have tagl: "length tag = 32" by (simp add: tag_def)
  have pl: "length parts = 25 + length ct" using iv by (simp add: parts_def)
  have t1: "take (length (parts @ tag) - 32) (parts @ tag) = parts" using tagl by simp
  have t2: "drop (length (parts @ tag) - 32) (parts @ tag) = tag" using tagl by simp
  have p1: "take 16 (drop 9 (parts @ tag)) = iv" using iv by (simp add: parts_def)
  have p2: "drop 25 parts = ct" using iv by (simp add: parts_def)
  have d1: "(parts @ tag = []) = False" by (simp add: parts_def)
  have d2: "hd (parts @ tag) = 0x80" by (simp add: parts_def)
  have d3: "(length (parts @ tag) < 9) = False" using pl by simp
  have ctm: "length ct mod 16 = 0" using ctl by simp
  have "fernet_decrypt f' (urlsafe_b64encode (parts @ tag)) =
     (if hmac_sha256 (signing_key f') parts \<noteq> tag then Inl invalid_token
      else (case pkcs7_unpad (cbc_decrypt (encryption_key f') iv (chunks 16 ct)) of
              Inl e \<Rightarrow> Inl invalid_token
            | Inr plaintext \<Rightarrow> Inr plaintext))"
    by (simp only: fernet_decrypt_def urlsafe_b64decode_encode sum.case Let_def
          d1 d2 d3 t1 t2 p1 p2 ctm simp_thms if_False if_True)
  then show ?thesis
    unfolding tok by (simp only: parts_def tag_def ct_def)
qed

lemma fernet_decrypt_encrypt:
  assumes iv: "length iv = 16" and key: "length (encryption_key f) = 16"
  shows "fernet_decrypt f (fernet_encrypt f current_time iv data) = Inr data"
proof -
  have "cbc_decrypt (encryption_key f) iv
          (chunks 16 (cbc_encrypt (encryption_key f) iv (chunks 16 (pkcs7_pad data))))
        = concat (chunks 16 (pkcs7_pad data))"
    using key iv pkcs7_chunks by (rule cbc_decrypt_encrypt)
  also have "\<dots> = pkcs7_pad data" by (simp add: concat_chunks)
  finally show ?thesis
    unfolding fernet_decrypt_other_key [OF iv key] by (simp add: pkcs7_unpad_pad)
qed

subsection \<open>Passwords that derive the same key\<close>

lemma encode_append_NUL: "encode (password @ [CHR 0x00]) = encode password @ [0]"
  by (simp add: encode_def)

lemma length_encode [simp]: "length (encode s) = length s"
  by (simp add: encode_def)

lemma generate_key_NUL:
  "length password < 64 \<Longrightarrow>
   generate_key self (password @ [CHR 0x00]) = generate_key self password"
  by (simp add: generate_key_def encode_append_NUL pbkdf2_key_zero)

subsection \<open>Files\<close>

lemma length_key_material [simp]: "length (key_material self password) = 32"
  by (simp add: key_material_def)

lemma Fernet_generate_key_of:
  "Fernet (generate_key self password) = Inr (fernet_of self password)"
  by (simp add: Fernet_generate_key fernet_of_def key_material_def)

lemma fernet_of_key_length [simp]:
  "length (encryption_key (fernet_of self password)) = 16"
  "length (signing_key (fernet_of self password)) = 16"
  by (simp_all add: fernet_of_def)

lemma fernet_of_salt:
  "fernet_of (self0\<lparr>salt := salt self\<rparr>) password = fernet_of self password"
  by (simp add: fernet_of_def key_material_def)

lemma fernet_of_NUL:
  "length password < 64 \<Longrightarrow> fernet_of self (password @ [CHR 0x00]) = fernet_of self password"
  by (simp add: fernet_of_def key_material_def encode_append_NUL pbkdf2_key_zero)

lemma encrypt_file_existing:
  "fs file_path = Some data \<Longrightarrow>
   encrypt_file self current_time iv fs file_path password =
     Inr (fs(file_path @ ''.encrypted'' \<mapsto>
            fernet_encrypt (fernet_of self password) current_time iv data),
          file_path @ ''.encrypted'', salt self)"
  by (simp add: encrypt_file_def Let_def Fernet_generate_key_of open_rb_def)

lemma encrypt_file_missing:
  "fs file_path = None \<Longrightarrow>
   encrypt_file self current_time iv fs file_path password =
     Inl (Raise FileNotFoundError
            (''[Errno 2] No such file or directory: '' @ repr_str file_path))"
  by (simp add: encrypt_file_def Let_def Fernet_generate_key_of open_rb_def)

lemma decrypt_file_existing:
  "fs path = Some token \<Longrightarrow>
   decrypt_file self0 fs path password s =
     bind (fernet_decrypt (fernet_of (self0\<lparr>salt := s\<rparr>) password) token) (\<lambda>d.
       Inr (self0\<lparr>salt := s\<rparr>,
            fs(str_replace ''.encrypted'' ''.decrypted'' path \<mapsto> d),
            str_replace ''.encrypted'' ''.decrypted'' path))"
  by (simp add: decrypt_file_def Let_def Fernet_generate_key_of open_rb_def)

lemma foldl_append_concat: "foldl (\<lambda>fed byte_block. fed @ byte_block) acc xs = acc @ concat xs"
  by (induction xs arbitrary: acc) simp_all

lemma calculate_file_hash_existing:
  "fs file_path = Some data \<Longrightarrow> calculate_file_hash fs file_path = Inr (hex (sha256 data))"
  by (simp add: calculate_file_hash_def open_rb_def foldl_append_concat concat_chunks)

lemma map_of_dict_set_same [simp]: "map_of (dict_set d k v) k = Some v"
  by (induction d) auto

lemma map_of_dict_set_other [simp]: "k' \<noteq> k \<Longrightarrow> map_of (dict_set d k v) k' = map_of d k'"
  by (induction d) auto

lemma length_chunks_mult:
  "0 < n \<Longrightarrow> length xs mod n = 0 \<Longrightarrow> n * length (chunks n xs) = length xs"
proof (induction n xs rule: chunks.induct)
  case (1 n xs)
  show ?case
  proof (cases "xs = []")
    case True
    then show ?thesis by simp
  next
    case False
    then have ch: "chunks n xs = take n xs # chunks n (drop n xs)"
      using "1.prems" by (subst chunks.simps) simp
    have "n dvd length xs" using "1.prems"(2) by auto
    then have ge: "n \<le> length xs" using False by (simp add: dvd_imp_le)
    have md: "length (drop n xs) mod n = 0"
      using "1.prems"(2) ge by (simp add: le_mod_geq)
    have "n * length (chunks n (drop n xs)) = length (drop n xs)"
      using "1.IH" "1.prems"(1) md False by blast
    then show ?thesis using ge by (simp add: ch)
  qed
qed

lemma length_fernet_encrypt_gt:
  assumes iv: "length iv = 16" and key: "length (encryption_key f) = 16"
  shows "length data < length (fernet_encrypt f current_time iv data)"
proof -
  define ct where "ct = cbc_encrypt (encryption_key f) iv (chunks 16 (pkcs7_pad data))"
  have "length ct = 16 * length (chunks 16 (pkcs7_pad data))"
    unfolding ct_def using key iv pkcs7_chunks by (rule length_cbc_encrypt)
  also have "\<dots> = length (pkcs7_pad data)"
    by (rule length_chunks_mult) (simp_all add: pkcs7_pad_length)
  finally have ctl: "length data < length ct" by (simp add: pkcs7_pad_def Let_def)
  have "length (fernet_encrypt f current_time iv data) = 4 * ((59 + length ct) div 3)"
    using iv by (simp add: fernet_encrypt_def Let_def ct_def [symmetric] length_urlsafe_b64encode)
  then show ?thesis using ctl by simp
qed

section \<open>Properties of the encryption\<close>

lemma decrypt_file_after_encrypt_file:
  assumes ex: "fs file_path = Some data" and iv: "length iv = 16"
  shows "decrypt_file self0
           (fs(file_path @ ''.encrypted'' \<mapsto>
                 fernet_encrypt (fernet_of self password) current_time iv data))
           (file_path @ ''.encrypted'') other (salt self) =
         bind (fernet_decrypt (fernet_of self other)
                 (fernet_encrypt (fernet_of self password) current_time iv data)) (\<lambda>d.
           Inr (self0\<lparr>salt := salt self\<rparr>,
                (fs(file_path @ ''.encrypted'' \<mapsto>
                      fernet_encrypt (fernet_of self password) current_time iv data))
                  (str_replace ''.encrypted'' ''.decrypted'' (file_path @ ''.encrypted'') \<mapsto> d),
                str_replace ''.encrypted'' ''.decrypted'' (file_path @ ''.encrypted'')))"
  by (subst decrypt_file_existing [where token =
        "fernet_encrypt (fernet_of self password) current_time iv data"])
     (simp_all only: fun_upd_same fernet_of_salt)

lemma str_replace_example:
  "str_replace ''.encrypted'' ''.decrypted'' ''f.encrypted'' = ''f.decrypted''"
  by (simp add: str_replace.simps)









section \<open>Properties of the data manager\<close>

lemma truthy_opt_Some: "truthy_opt (Some p) = (p \<noteq> [])"
  by simp

lemma upload_dataset_encrypted:
  assumes ex: "fs file_path = Some data" and pw: "password \<noteq> []"
  shows "upload_dataset self current_time iv fs file_path metadata (Some password) =
     Inr (self\<lparr>ipfs := (ipfs self)
            \<lparr>blobs := (blobs (ipfs self))
               (cid (ipfs self)
                  (fernet_encrypt (fernet_of (encryption self) password) current_time iv data)
                \<mapsto> fernet_encrypt (fernet_of (encryption self) password) current_time iv data),
             documents := (documents (ipfs self))
               (json_cid (ipfs self)
                  (PDict [(''file_hash'', PStr (hex (sha256 data))),
                          (''ipfs_hash'', PStr (cid (ipfs self)
                             (fernet_encrypt (fernet_of (encryption self) password)
                                current_time iv data))),
                          (''metadata'', PDict
                             (dict_set (dict_set metadata ''encrypted'' (PBool True))
                                ''salt'' (PStr (hex (salt (encryption self))))))])
                \<mapsto> PDict [(''file_hash'', PStr (hex (sha256 data))),
                          (''ipfs_hash'', PStr (cid (ipfs self)
                             (fernet_encrypt (fernet_of (encryption self) password)
                                current_time iv data))),
                          (''metadata'', PDict
                             (dict_set (dict_set metadata ''encrypted'' (PBool True))
                                ''salt'' (PStr (hex (salt (encryption self))))))])\<rparr>\<rparr>,
          fs(file_path @ ''.encrypted'' \<mapsto>
               fernet_encrypt (fernet_of (encryption self) password) current_time iv data),
          dict_set (dict_set metadata ''encrypted'' (PBool True))
            ''salt'' (PStr (hex (salt (encryption self)))),
          [(''metadata_hash'', PStr (json_cid (ipfs self)
               (PDict [(''file_hash'', PStr (hex (sha256 data))),
                       (''ipfs_hash'', PStr (cid (ipfs self)
                          (fernet_encrypt (fernet_of (encryption self) password)
                             current_time iv data))),
                       (''metadata'', PDict
                          (dict_set (dict_set metadata ''encrypted'' (PBool True))
                             ''salt'' (PStr (hex (salt (encryption self))))))]))),
           (''ipfs_hash'', PStr (cid (ipfs self)
              (fernet_encrypt (fernet_of (encryption self) password) current_time iv data))),
           (''file_hash'', PStr (hex (sha256 data)))])"
  unfolding upload_dataset_def
    calculate_file_hash_existing [where fs = fs and file_path = file_path and data = data, OF ex]
    encrypt_file_existing [where fs = fs and file_path = file_path and data = data, OF ex]
  using pw by (simp add: ipfs_add_def open_rb_def ipfs_add_json_def Let_def)

lemma upload_dataset_plain:
  assumes ex: "fs file_path = Some data" and pw: "\<not> truthy_opt password"
  shows "upload_dataset self current_time iv fs file_path metadata password =
     Inr (self\<lparr>ipfs := (ipfs self)
            \<lparr>blobs := (blobs (ipfs self))(cid (ipfs self) data \<mapsto> data),
             documents := (documents (ipfs self))
               (json_cid (ipfs self)
                  (PDict [(''file_hash'', PStr (hex (sha256 data))),
                          (''ipfs_hash'', PStr (cid (ipfs self) data)),
                          (''metadata'', PDict (dict_set metadata ''encrypted'' (PBool False)))])
                \<mapsto> PDict [(''file_hash'', PStr (hex (sha256 data))),
                          (''ipfs_hash'', PStr (cid (ipfs self) data)),
                          (''metadata'', PDict (dict_set metadata ''encrypted'' (PBool False)))])\<rparr>\<rparr>,
          fs,
          dict_set metadata ''encrypted'' (PBool False),
          [(''metadata_hash'', PStr (json_cid (ipfs self)
               (PDict [(''file_hash'', PStr (hex (sha256 data))),
                       (''ipfs_hash'', PStr (cid (ipfs self) data)),
                       (''metadata'', PDict (dict_set metadata ''encrypted'' (PBool False)))]))),
           (''ipfs_hash'', PStr (cid (ipfs self) data)),
           (''file_hash'', PStr (hex (sha256 data)))])"
  unfolding upload_dataset_def
    calculate_file_hash_existing [where fs = fs and file_path = file_path and data = data, OF ex]
  using pw ex by (simp add: ipfs_add_def open_rb_def ipfs_add_json_def Let_def)

lemma retrieve_dataset_nested:
  assumes doc: "documents (ipfs self) metadata_hash =
      Some (PDict [(''file_hash'', PStr file_hash), (''ipfs_hash'', PStr h),
                   (''metadata'', PDict metadata)])"
    and blob: "blobs (ipfs self) h = Some stored"
  shows "retrieve_dataset self fs metadata_hash password =
     Inr (self, fs(h \<mapsto> stored), h,
          PDict [(''file_hash'', PStr file_hash), (''ipfs_hash'', PStr h),
                 (''metadata'', PDict metadata)])"
  using doc blob
  by (simp add: retrieve_dataset_def ipfs_get_json_def subscript_def ipfs_get_def py_get_def
        dict_get_def)


text \<open>
  Claim C5, amended. \<^verbatim>\<open>upload_dataset\<close> hashes the bytes of the file as they are before any
  encryption, so the returned \<^verbatim>\<open>file_hash\<close> is the SHA-256 of the plaintext whatever the
  password. With a password that is not empty the stored blob is the ciphertext and the
  stored metadata records \<^verbatim>\<open>encrypted = True\<close> with the salt of the object in hexadecimal;
  with no password or the empty one, the blob is the plaintext and the metadata records
  \<^verbatim>\<open>encrypted = False\<close> and no salt of its own.
\<close>

theorem upload_dataset_hash_of_plaintext:
  assumes ex: "fs file_path = Some data"
  shows "case upload_dataset self current_time iv fs file_path metadata password of
      Inl e \<Rightarrow> False
    | Inr (self1, fs1, metadata1, result) \<Rightarrow>
        map_of result ''file_hash'' = Some (PStr (hex (sha256 data)))
        \<and> map_of metadata1 ''encrypted'' = Some (PBool (truthy_opt password))
        \<and> map_of metadata1 ''salt'' =
            (if truthy_opt password then Some (PStr (hex (salt (encryption self))))
             else map_of metadata ''salt'')
        \<and> (case map_of result ''ipfs_hash'' of
              Some (PStr ipfs_hash) \<Rightarrow>
                blobs (ipfs self1) ipfs_hash =
                  Some (if truthy_opt password
                        then fernet_encrypt
                               (fernet_of (encryption self)
                                  (case password of Some p \<Rightarrow> p | None \<Rightarrow> []))
                               current_time iv data
                        else data)
                \<and> (case map_of result ''metadata_hash'' of
                      Some (PStr metadata_hash) \<Rightarrow>
                        documents (ipfs self1) metadata_hash =
                          Some (PDict [(''file_hash'', PStr (hex (sha256 data))),
                                       (''ipfs_hash'', PStr ipfs_hash),
                                       (''metadata'', PDict metadata1)])
                    | _ \<Rightarrow> False)
            | _ \<Rightarrow> False)"
proof (cases "truthy_opt password")
  case True
  then obtain p where p: "password = Some p" "p \<noteq> []"
    by (cases password) auto
  show ?thesis
    unfolding p(1) upload_dataset_encrypted [where fs = fs and file_path = file_path
        and data = data, OF ex p(2)] sum.case prod.case
    using p(2) by simp
next
  case False
  show ?thesis
    unfolding upload_dataset_plain [where fs = fs and file_path = file_path
        and data = data, OF ex False] sum.case prod.case
    using False by simp
qed

theorem upload_dataset_hash_of_plaintext_witness:
  "(Map.empty(''f'' \<mapsto> [1::byte, 2, 3])) ''f'' = Some [1, 2, 3]
   \<and> (case upload_dataset
          \<lparr>ipfs = \<lparr>cid = hex, json_cid = type_name, blobs = Map.empty,
                   documents = Map.empty\<rparr>,
           encryption = DataEncryption_init (replicate 16 7)\<rparr>
          0 (replicate 16 5) (Map.empty(''f'' \<mapsto> [1, 2, 3])) ''f''
          [(''name'', PStr ''d'')] (Some ''pw'') of
        Inl e \<Rightarrow> False
      | Inr (self1, fs1, metadata1, result) \<Rightarrow>
          map_of result ''file_hash'' = Some (PStr (hex (sha256 [1, 2, 3])))
          \<and> map_of metadata1 ''encrypted'' = Some (PBool True)
          \<and> map_of metadata1 ''salt'' = Some (PStr (hex (replicate 16 7))))"
proof -
  have a: "(Map.empty(''f'' \<mapsto> [1::byte, 2, 3])) ''f'' = Some [1, 2, 3]" by simp
  have s: "salt (encryption \<lparr>ipfs = \<lparr>cid = hex, json_cid = type_name, blobs = Map.empty,
                   documents = Map.empty\<rparr>,
           encryption = DataEncryption_init (replicate 16 7)\<rparr>) = replicate 16 7"
    by (simp add: DataEncryption_init_def)
  have b: "''pw'' \<noteq> []" by simp
  show ?thesis
    using upload_dataset_hash_of_plaintext [where fs = "Map.empty(''f'' \<mapsto> [1, 2, 3])"
        and file_path = "''f''" and data = "[1, 2, 3]"
        and self = "\<lparr>ipfs = \<lparr>cid = hex, json_cid = type_name, blobs = Map.empty,
                   documents = Map.empty\<rparr>,
           encryption = DataEncryption_init (replicate 16 7)\<rparr>"
        and current_time = 0 and iv = "replicate 16 5" and metadata = "[(''name'', PStr ''d'')]"
        and password = "Some ''pw''", OF a] a
    unfolding upload_dataset_encrypted [where fs = "Map.empty(''f'' \<mapsto> [1, 2, 3])"
        and file_path = "''f''" and data = "[1, 2, 3]" and password = "''pw''", OF a b]
      sum.case prod.case s
    by simp
qed

theorem upload_dataset_empty_password:
  "upload_dataset
      \<lparr>ipfs = \<lparr>cid = hex, json_cid = type_name, blobs = Map.empty, documents = Map.empty\<rparr>,
       encryption = DataEncryption_init (replicate 16 7)\<rparr>
      0 (replicate 16 5) (Map.empty(''f'' \<mapsto> [1, 2, 3])) ''f'' [] (Some [])
   = Inr (\<lparr>ipfs = \<lparr>cid = hex, json_cid = type_name,
                   blobs = Map.empty(hex [1, 2, 3] \<mapsto> [1, 2, 3]),
                   documents = Map.empty(''dict'' \<mapsto>
                     PDict [(''file_hash'', PStr (hex (sha256 [1, 2, 3]))),
                            (''ipfs_hash'', PStr (hex [1, 2, 3])),
                            (''metadata'', PDict [(''encrypted'', PBool False)])])\<rparr>,
           encryption = DataEncryption_init (replicate 16 7)\<rparr>,
          Map.empty(''f'' \<mapsto> [1, 2, 3]),
          [(''encrypted'', PBool False)],
          [(''metadata_hash'', PStr ''dict''),
           (''ipfs_hash'', PStr (hex [1, 2, 3])),
           (''file_hash'', PStr (hex (sha256 [1, 2, 3])))])"
proof -
  have a: "(Map.empty(''f'' \<mapsto> [1::byte, 2, 3])) ''f'' = Some [1, 2, 3]" by simp
  have b: "\<not> truthy_opt (Some [])" by simp
  show ?thesis
    unfolding upload_dataset_plain [where fs = "Map.empty(''f'' \<mapsto> [1, 2, 3])"
        and file_path = "''f''" and data = "[1, 2, 3]", OF a b]
    by simp
qed


text \<open>
  Claim C9 on the code. \<^verbatim>\<open>upload_dataset\<close> records \<^verbatim>\<open>encrypted\<close> and \<^verbatim>\<open>salt\<close> inside the
  \<^verbatim>\<open>metadata\<close> entry of the stored object, and \<^verbatim>\<open>retrieve_dataset\<close> looks for
  \<^verbatim>\<open>encrypted\<close> at the top of that object, where it is absent. So after an upload with a
  password, retrieval with that same password does what retrieval without a password does:
  it returns a path that holds the ciphertext, which differs from the plaintext, and the
  stored object, whose \<^verbatim>\<open>metadata\<close> entry carries \<^verbatim>\<open>encrypted = True\<close>.
\<close>

theorem retrieve_dataset_never_decrypts:
  assumes ex: "fs file_path = Some data" and pw: "password \<noteq> []" and iv: "length iv = 16"
  shows "case upload_dataset self current_time iv fs file_path metadata (Some password) of
      Inl e \<Rightarrow> False
    | Inr (self1, fs1, metadata1, result) \<Rightarrow>
        (case map_of result ''metadata_hash'' of
           Some (PStr metadata_hash) \<Rightarrow>
             retrieve_dataset self1 fs2 metadata_hash (Some password)
               = retrieve_dataset self1 fs2 metadata_hash None
             \<and> (case retrieve_dataset self1 fs2 metadata_hash (Some password) of
                   Inl e \<Rightarrow> False
                 | Inr (self2, fs3, dataset_path, obj) \<Rightarrow>
                     fs3 dataset_path =
                       Some (fernet_encrypt (fernet_of (encryption self) password)
                               current_time iv data)
                     \<and> fs3 dataset_path \<noteq> Some data
                     \<and> subscript obj ''metadata'' = Inr (PDict metadata1)
                     \<and> map_of metadata1 ''encrypted'' = Some (PBool True)
                     \<and> py_get obj ''encrypted'' (PBool False) = Inr (PBool False))
         | _ \<Rightarrow> False)"
proof -
  define tok where
    "tok = fernet_encrypt (fernet_of (encryption self) password) current_time iv data"
  define h where "h = cid (ipfs self) tok"
  define md where "md = dict_set (dict_set metadata ''encrypted'' (PBool True))
      ''salt'' (PStr (hex (salt (encryption self))))"
  define obj where "obj = PDict [(''file_hash'', PStr (hex (sha256 data))),
      (''ipfs_hash'', PStr h), (''metadata'', PDict md)]"
  define mh where "mh = json_cid (ipfs self) obj"
  define self1 where "self1 = self\<lparr>ipfs := (ipfs self)
      \<lparr>blobs := (blobs (ipfs self))(h \<mapsto> tok),
       documents := (documents (ipfs self))(mh \<mapsto> obj)\<rparr>\<rparr>"
  have up: "upload_dataset self current_time iv fs file_path metadata (Some password) =
      Inr (self1, fs(file_path @ ''.encrypted'' \<mapsto> tok), md,
           [(''metadata_hash'', PStr mh), (''ipfs_hash'', PStr h),
            (''file_hash'', PStr (hex (sha256 data)))])"
    unfolding self1_def mh_def obj_def md_def h_def tok_def
    using ex pw by (rule upload_dataset_encrypted)
  have doc: "documents (ipfs self1) mh =
      Some (PDict [(''file_hash'', PStr (hex (sha256 data))), (''ipfs_hash'', PStr h),
                   (''metadata'', PDict md)])"
    by (simp add: self1_def obj_def)
  have blob: "blobs (ipfs self1) h = Some tok" by (simp add: self1_def)
  have r: "retrieve_dataset self1 fs2 mh pw_opt = Inr (self1, fs2(h \<mapsto> tok), h, obj)"
    for pw_opt
    unfolding obj_def using doc blob by (rule retrieve_dataset_nested)
  have "length data < length tok"
    unfolding tok_def using iv by (rule length_fernet_encrypt_gt) simp
  then have ne: "tok \<noteq> data" by auto
  have enc: "map_of md ''encrypted'' = Some (PBool True)" by (simp add: md_def)
  have sub: "subscript obj ''metadata'' = Inr (PDict md)" by (simp add: obj_def subscript_def)
  have top: "py_get obj ''encrypted'' (PBool False) = Inr (PBool False)"
    by (simp add: obj_def py_get_def dict_get_def)
  show ?thesis
    unfolding up sum.case prod.case
    using ne enc sub top by (simp add: r tok_def [symmetric])
qed

theorem retrieve_dataset_never_decrypts_witness:
  "(Map.empty(''f'' \<mapsto> [1::byte, 2, 3])) ''f'' = Some [1, 2, 3]
   \<and> ''pw'' \<noteq> []
   \<and> length (replicate 16 (5::byte)) = 16
   \<and> (case upload_dataset
          \<lparr>ipfs = \<lparr>cid = hex, json_cid = type_name, blobs = Map.empty,
                   documents = Map.empty\<rparr>,
           encryption = DataEncryption_init (replicate 16 7)\<rparr>
          0 (replicate 16 5) (Map.empty(''f'' \<mapsto> [1, 2, 3])) ''f''
          [(''name'', PStr ''d'')] (Some ''pw'') of
        Inl e \<Rightarrow> False
      | Inr (self1, fs1, metadata1, result) \<Rightarrow>
          (case map_of result ''metadata_hash'' of
             Some (PStr metadata_hash) \<Rightarrow>
               retrieve_dataset self1 fs1 metadata_hash (Some ''pw'')
                 = retrieve_dataset self1 fs1 metadata_hash None
               \<and> (case retrieve_dataset self1 fs1 metadata_hash (Some ''pw'') of
                     Inl e \<Rightarrow> False
                   | Inr (self2, fs3, dataset_path, obj) \<Rightarrow>
                       fs3 dataset_path \<noteq> Some [1, 2, 3]
                       \<and> map_of metadata1 ''encrypted'' = Some (PBool True))
           | _ \<Rightarrow> False))"
proof -
  have a: "(Map.empty(''f'' \<mapsto> [1::byte, 2, 3])) ''f'' = Some [1, 2, 3]" by simp
  have b: "''pw'' \<noteq> []" by simp
  have c: "length (replicate 16 (5::byte)) = 16" by simp
  have "case upload_dataset
          \<lparr>ipfs = \<lparr>cid = hex, json_cid = type_name, blobs = Map.empty,
                   documents = Map.empty\<rparr>,
           encryption = DataEncryption_init (replicate 16 7)\<rparr>
          0 (replicate 16 5) (Map.empty(''f'' \<mapsto> [1, 2, 3])) ''f''
          [(''name'', PStr ''d'')] (Some ''pw'') of
        Inl e \<Rightarrow> False
      | Inr (self1, fs1, metadata1, result) \<Rightarrow>
          (case map_of result ''metadata_hash'' of
             Some (PStr metadata_hash) \<Rightarrow>
               retrieve_dataset self1 fs1 metadata_hash (Some ''pw'')
                 = retrieve_dataset self1 fs1 metadata_hash None
               \<and> (case retrieve_dataset self1 fs1 metadata_hash (Some ''pw'') of
                     Inl e \<Rightarrow> False
                   | Inr (self2, fs3, dataset_path, obj) \<Rightarrow>
                       fs3 dataset_path \<noteq> Some [1, 2, 3]
                       \<and> map_of metadata1 ''encrypted'' = Some (PBool True))
           | _ \<Rightarrow> False)"
    using retrieve_dataset_never_decrypts [where fs = "Map.empty(''f'' \<mapsto> [1, 2, 3])"
        and file_path = "''f''" and data = "[1, 2, 3]" and password = "''pw''"
        and iv = "replicate 16 5" and current_time = 0
        and metadata = "[(''name'', PStr ''d'')]"
        and self = "\<lparr>ipfs = \<lparr>cid = hex, json_cid = type_name, blobs = Map.empty,
                   documents = Map.empty\<rparr>,
           encryption = DataEncryption_init (replicate 16 7)\<rparr>"
        and ?fs2.0 = "(Map.empty(''f'' \<mapsto> [1, 2, 3]))(''f'' @ ''.encrypted'' \<mapsto>
            fernet_encrypt (fernet_of (encryption
              \<lparr>ipfs = \<lparr>cid = hex, json_cid = type_name, blobs = Map.empty,
                   documents = Map.empty\<rparr>,
               encryption = DataEncryption_init (replicate 16 7)\<rparr>) ''pw'')
              0 (replicate 16 5) [1, 2, 3])", OF a b c]
    unfolding upload_dataset_encrypted [where fs = "Map.empty(''f'' \<mapsto> [1, 2, 3])"
        and file_path = "''f''" and data = "[1, 2, 3]" and password = "''pw''", OF a b]
      sum.case prod.case
    by (auto split: sum.splits option.splits pyval.splits)
  then show ?thesis using a b c by blast
qed


end
